theory Spec2Isabelle
  imports Main "HOL-Library.Word"
begin

unbundle bit_operations_syntax

section \<open>Bytes, buffers and errors\<close>

text \<open>
  A \<open>Uint8Array\<close>, an \<open>ArrayBuffer\<close> and the content of a \<open>Blob\<close> are lists of
  bytes. A JavaScript exception (a rejected promise) is a value of the type \<open>error\<close>.
\<close>

type_synonym byte = "8 word"
type_synonym bytes = "byte list"

datatype error =
    LegacyFormatDetected
  | OperationError
  | RangeError
  | LibraryError
  | Failure string

text \<open>
  \<open>buffer.slice(begin, end)\<close> and \<open>buffer.slice(begin)\<close> of an \<open>ArrayBuffer\<close>, for the
  non-negative indices the source uses: both indices are clamped to the length of the
  buffer, and an empty buffer results when \<open>end\<close> is not above \<open>begin\<close>.
\<close>

definition slice :: "bytes \<Rightarrow> nat \<Rightarrow> nat option \<Rightarrow> bytes" where
  "slice buffer begin fin =
     (let len = length buffer;
          first = min begin len;
          final = (case fin of None \<Rightarrow> len | Some e \<Rightarrow> min e len);
          newLen = (if final \<ge> first then final - first else 0)
      in take newLen (drop first buffer))"

text \<open>
  \<open>String.fromCharCode(...firstBytes)\<close>: one character per byte, the character whose
  code is the value of the byte.
\<close>

definition fromCharCode :: "bytes \<Rightarrow> string" where
  "fromCharCode bs = map (\<lambda>b. char_of (unat b)) bs"

section \<open>The legacy library's word arrays\<close>

text \<open>
  A \<open>CryptoJS.lib.WordArray\<close>: a list of numbers, each read as a 32-bit integer by
  the shift and mask operators of the source, and the count of significant bytes.
\<close>

record WordArray =
  words :: "32 word list"
  sigBytes :: int

text \<open>
  One guarded store of the loop body, \<open>if (offset < len) u8[offset++] = b\<close>, on the
  pair of the array and the offset.
\<close>

definition put_byte :: "nat \<Rightarrow> byte \<Rightarrow> bytes \<times> nat \<Rightarrow> bytes \<times> nat" where
  "put_byte len b st =
     (case st of (u8, offset) \<Rightarrow>
        if offset < len then (u8[offset := b], offset + 1) else (u8, offset))"

text \<open>
  The four bytes of the loop body: \<open>(word >> 24) & 0xff\<close>, \<open>(word >> 16) & 0xff\<close>,
  \<open>(word >> 8) & 0xff\<close>, \<open>word & 0xff\<close>, where \<open>>>\<close> is the sign-propagating shift
  of a 32-bit integer.
\<close>

definition byte1 :: "32 word \<Rightarrow> byte" where
  "byte1 word = ucast (signed_drop_bit 24 word AND 0xff)"

definition byte2 :: "32 word \<Rightarrow> byte" where
  "byte2 word = ucast (signed_drop_bit 16 word AND 0xff)"

definition byte3 :: "32 word \<Rightarrow> byte" where
  "byte3 word = ucast (signed_drop_bit 8 word AND 0xff)"

definition byte4 :: "32 word \<Rightarrow> byte" where
  "byte4 word = ucast (word AND 0xff)"

definition word_body :: "nat \<Rightarrow> bytes \<times> nat \<Rightarrow> 32 word \<Rightarrow> bytes \<times> nat" where
  "word_body len st word =
     put_byte len (byte4 word)
       (put_byte len (byte3 word)
         (put_byte len (byte2 word)
           (put_byte len (byte1 word) st)))"

text \<open>
  \<open>convertWordArrayToUint8Array\<close> (the same text in both versions of the dashboard).
  \<open>new Uint8Array(len)\<close> throws a \<open>RangeError\<close> for a negative length and is filled
  with zeros otherwise; the loop runs over all the words.
\<close>

definition convertWordArrayToUint8Array :: "WordArray \<Rightarrow> error + bytes" where
  "convertWordArrayToUint8Array wordArray =
     (if sigBytes wordArray < 0 then Inl RangeError
      else
        let len = nat (sigBytes wordArray);
            u8 = replicate len (0 :: byte)
        in Inr (fst (foldl (word_body len) (u8, 0) (words wordArray))))"

text \<open>The big-endian encoding of a 32-bit word, and of a list of words.\<close>

definition be_bytes :: "32 word \<Rightarrow> bytes" where
  "be_bytes w = [ucast (drop_bit 24 w), ucast (drop_bit 16 w), ucast (drop_bit 8 w), ucast w]"

definition be_concat :: "32 word list \<Rightarrow> bytes" where
  "be_concat ws = concat (map be_bytes ws)"

text \<open>
  The loop invariant: after the bytes \<open>xs\<close> have been offered to the array, the array
  holds the first \<open>len\<close> of them, then zeros, and the offset is their count, capped at
  \<open>len\<close>.
\<close>

definition filled :: "nat \<Rightarrow> bytes \<Rightarrow> bytes \<times> nat" where
  "filled len xs = (take len xs @ replicate (len - length xs) 0, min len (length xs))"

section \<open>Client-side encryption\<close>

text \<open>
  The cryptographic primitives are the browser's and the legacy library's, not this
  program's, so the functions below take them as a parameter:
  \<^item> \<open>utf8_encode\<close> is \<open>new TextEncoder().encode\<close>;
  \<^item> \<open>sha256\<close> is \<open>crypto.subtle.digest("SHA-256", _)\<close>;
  \<^item> \<open>gcm_encrypt key iv data\<close> and \<open>gcm_decrypt key iv data\<close> are
    \<open>crypto.subtle.encrypt\<close> and \<open>crypto.subtle.decrypt\<close> with
    \<open>{name: "AES-GCM", iv}\<close>, and \<open>None\<close> when the promise is rejected;
  \<^item> \<open>cryptojs_decrypt blob passphrase salt\<close> is
    \<open>CryptoJS.AES.decrypt(await blob.text(), passphrase)\<close> as a function of the bytes
    of the blob, and \<open>None\<close> when the library throws. The library reads the salt of
    the key derivation from the header of the text and draws a random one when the
    text has no complete header; \<open>salt\<close> is the value its random generator returns
    in that call.
\<close>

record crypto =
  utf8_encode :: "string \<Rightarrow> bytes"
  sha256 :: "bytes \<Rightarrow> bytes"
  gcm_encrypt :: "bytes \<Rightarrow> bytes \<Rightarrow> bytes \<Rightarrow> bytes option"
  gcm_decrypt :: "bytes \<Rightarrow> bytes \<Rightarrow> bytes \<Rightarrow> bytes option"
  cryptojs_decrypt :: "bytes \<Rightarrow> string \<Rightarrow> bytes \<Rightarrow> WordArray option"

text \<open>
  \<open>getCryptoKey\<close>: the SHA-256 digest of the encoded secret, imported as the raw
  AES-GCM key. The imported key is identified with its raw bytes.
\<close>

definition getCryptoKey :: "crypto \<Rightarrow> string \<Rightarrow> bytes" where
  "getCryptoKey C secret =
     (let keyData = utf8_encode C secret;
          hash = sha256 C keyData
      in hash)"

text \<open>
  \<open>encryptFile\<close>, with the secret \<open>ENCRYPTION_KEY\<close>, the value \<open>iv\<close> that
  \<open>crypto.getRandomValues(new Uint8Array(12))\<close> returned, and the bytes of the file.
\<close>

definition encryptFile :: "crypto \<Rightarrow> string \<Rightarrow> bytes \<Rightarrow> bytes \<Rightarrow> error + bytes" where
  "encryptFile C secret iv fileBuffer =
     (let key = getCryptoKey C secret
      in case gcm_encrypt C key iv fileBuffer of
           None \<Rightarrow> Inl OperationError
         | Some encryptedBuffer \<Rightarrow> Inr (iv @ encryptedBuffer))"

text \<open>
  \<open>decryptFile\<close> is a \<open>try\<close> block and a \<open>catch\<close> block. The \<open>try\<close> block throws
  when the header is the legacy one and when the AES-GCM decryption is rejected.
\<close>

definition decryptFile_try :: "crypto \<Rightarrow> string \<Rightarrow> bytes \<Rightarrow> error + bytes" where
  "decryptFile_try C secret buffer =
     (let firstBytes = slice buffer 0 (Some 10);
          header = fromCharCode firstBytes
      in if header = ''U2FsdGVkX1'' then Inl LegacyFormatDetected
         else
           let key = getCryptoKey C secret;
               iv = slice buffer 0 (Some 12);
               data = slice buffer 12 None
           in case gcm_decrypt C key iv data of
                None \<Rightarrow> Inl OperationError
              | Some decryptedBuffer \<Rightarrow> Inr decryptedBuffer)"

definition decryptFile_catch :: "crypto \<Rightarrow> string \<Rightarrow> bytes \<Rightarrow> bytes \<Rightarrow> error + bytes" where
  "decryptFile_catch C secret salt blob =
     (case cryptojs_decrypt C blob secret salt of
        None \<Rightarrow> Inl LibraryError
      | Some decrypted \<Rightarrow> convertWordArrayToUint8Array decrypted)"

definition decryptFile :: "crypto \<Rightarrow> string \<Rightarrow> bytes \<Rightarrow> bytes \<Rightarrow> error + bytes" where
  "decryptFile C secret salt blob =
     (case decryptFile_try C secret blob of
        Inr decrypted \<Rightarrow> Inr decrypted
      | Inl e \<Rightarrow> decryptFile_catch C secret salt blob)"

text \<open>
  The earlier \<open>decryptFile\<close> of \<open>components/dashboard-view.tsx\<close>, which knows the
  legacy format only.
\<close>

definition decryptFile_old :: "crypto \<Rightarrow> string \<Rightarrow> bytes \<Rightarrow> bytes \<Rightarrow> error + bytes" where
  "decryptFile_old C secret salt blob =
     (case cryptojs_decrypt C blob secret salt of
        None \<Rightarrow> Inl LibraryError
      | Some decrypted \<Rightarrow>
          (case convertWordArrayToUint8Array decrypted of
             Inl e \<Rightarrow> Inl e
           | Inr typedArray \<Rightarrow> Inr typedArray))"

text \<open>The ten bytes of the legacy signature, the character codes of \<open>U2FsdGVkX1\<close>.\<close>

definition legacy_signature :: bytes where
  "legacy_signature = [0x55, 0x32, 0x46, 0x73, 0x64, 0x47, 0x56, 0x6b, 0x58, 0x31]"

text \<open>
  The complete header of the legacy format: the signature followed by one of the
  characters \<open>8\<close>, \<open>9\<close>, \<open>+\<close> and \<open>/\<close>, with which the text decodes to the eight
  bytes \<open>Salted__\<close> and the legacy library reads the salt from the text. What the
  program can rely on from the library: on a blob with the complete header its result
  does not depend on the random draw.
\<close>

definition full_header :: "bytes \<Rightarrow> bool" where
  "full_header blob =
     (take 10 blob = legacy_signature
      \<and> (case drop 10 blob of [] \<Rightarrow> False | c # rest \<Rightarrow> c \<in> set [0x38, 0x39, 0x2b, 0x2f]))"

definition salt_from_header :: "crypto \<Rightarrow> bool" where
  "salt_from_header C =
     (\<forall>blob secret salt salt'.
        full_header blob \<longrightarrow>
        cryptojs_decrypt C blob secret salt = cryptojs_decrypt C blob secret salt')"

text \<open>
  What the program relies on from AES-GCM: decryption under the key and the
  initialization vector of the encryption returns the plaintext.
\<close>

definition gcm_correct :: "crypto \<Rightarrow> bool" where
  "gcm_correct C =
     (\<forall>key iv plain cipher.
        gcm_encrypt C key iv plain = Some cipher \<longrightarrow> gcm_decrypt C key iv cipher = Some plain)"

text \<open>
  A small instance of the primitives, on which the definitions can be run: the digest
  is the identity, the cipher flips the bits of each byte and appends a tag of sixteen
  zero bytes, which decryption checks. The legacy decoder returns the empty word
  array on a blob with the complete header, and otherwise an array without words
  whose count of bytes is the first byte of the random draw.
\<close>

definition sample_tag :: bytes where
  "sample_tag = replicate 16 0"

definition sample_crypto :: crypto where
  "sample_crypto =
     \<lparr> utf8_encode = map (\<lambda>c. of_nat (of_char c)),
       sha256 = (\<lambda>bs. bs),
       gcm_encrypt = (\<lambda>key iv plain. Some (map (\<lambda>b. NOT b) plain @ sample_tag)),
       gcm_decrypt = (\<lambda>key iv cipher.
          if length cipher \<ge> 16 \<and> drop (length cipher - 16) cipher = sample_tag
          then Some (map (\<lambda>b. NOT b) (take (length cipher - 16) cipher))
          else None),
       cryptojs_decrypt = (\<lambda>blob passphrase salt.
          if full_header blob then Some \<lparr>words = [], sigBytes = 0\<rparr>
          else Some \<lparr>words = [],
                      sigBytes = (case salt of [] \<Rightarrow> 0 | b # rest \<Rightarrow> uint b)\<rparr>) \<rparr>"

definition sample_salt :: bytes where
  "sample_salt = [0, 1, 2, 3, 4, 5, 6, 7]"

definition other_salt :: bytes where
  "other_salt = [2, 1, 2, 3, 4, 5, 6, 7]"

section \<open>Handlers as procedures on the state\<close>

text \<open>
  An asynchronous function of the source is a procedure on a state: it returns the new
  state, and either a value or the exception it throws (the rejection of its promise).
  \<open>seq\<close> is sequencing (\<open>await\<close> and \<open>;\<close>), \<open>try_catch\<close> and \<open>finally_do\<close> are
  the \<open>try\<close> statement, and \<open>spawn\<close> is a call whose promise is not awaited: its
  effects happen, its outcome is dropped. The steps of a spawned call are taken at the
  place of the call.
\<close>

type_synonym ('w, 'a) proc = "'w \<Rightarrow> (error + 'a) \<times> 'w"

definition ret :: "'a \<Rightarrow> ('w, 'a) proc" where
  "ret x w = (Inr x, w)"

definition throw :: "error \<Rightarrow> ('w, 'a) proc" where
  "throw e w = (Inl e, w)"

definition lift :: "error + 'a \<Rightarrow> ('w, 'a) proc" where
  "lift r w = (r, w)"

definition update :: "('w \<Rightarrow> 'w) \<Rightarrow> ('w, unit) proc" where
  "update f w = (Inr (), f w)"

definition seq :: "('w, 'a) proc \<Rightarrow> ('a \<Rightarrow> ('w, 'c) proc) \<Rightarrow> ('w, 'c) proc" where
  "seq m f w = (case m w of (Inl e, w') \<Rightarrow> (Inl e, w') | (Inr x, w') \<Rightarrow> f x w')"

definition try_catch :: "('w, 'a) proc \<Rightarrow> (error \<Rightarrow> ('w, 'a) proc) \<Rightarrow> ('w, 'a) proc" where
  "try_catch m h w = (case m w of (Inl e, w') \<Rightarrow> h e w' | (Inr x, w') \<Rightarrow> (Inr x, w'))"

definition finally_do :: "('w, 'a) proc \<Rightarrow> ('w \<Rightarrow> 'w) \<Rightarrow> ('w, 'a) proc" where
  "finally_do m f w = (case m w of (r, w') \<Rightarrow> (r, f w'))"

definition spawn :: "('w, 'a) proc \<Rightarrow> ('w, unit) proc" where
  "spawn m w = (Inr (), snd (m w))"

text \<open>
  \<open>error.message\<close>. An error of the backend carries its own message; the messages of
  the other errors are the platform's, and the handlers only test them for emptiness
  and show them.
\<close>

fun message :: "error \<Rightarrow> string" where
  "message (Failure m) = m"
| "message LegacyFormatDetected = ''Legacy Format Detected''"
| "message OperationError = ''The operation failed for an operation-specific reason''"
| "message RangeError = ''Invalid typed array length''"
| "message LibraryError = ''Malformed data''"

section \<open>The hosted backend\<close>

text \<open>
  The calls the client sends to the hosted backend. The backend itself is not part of
  the program: it is a parameter, a state of any type \<open>'b\<close> with one transition per
  call. A call either throws, or resolves to \<open>{data, error}\<close>: \<open>Error m\<close> is an
  \<open>error\<close> with message \<open>m\<close>, \<open>Data d\<close> is the \<open>data\<close> with no \<open>error\<close>.
\<close>

datatype 'a result = Error string | Data 'a

text \<open>
  The records of the source, with the fields the handlers and the screens read: the
  profile of the dashboard (\<open>role\<close>, \<open>status\<close>), a \<open>FileObject\<close> (its \<open>name\<close> and its
  \<open>metadata?.originalType\<close>), a \<open>Profile\<close> of the admin panel, and the signed-in
  user. Status and role are strings, as they arrive from the backend.
\<close>

record UserProfile =
  role :: string
  status :: string

record FileObject =
  fo_name :: string
  fo_originalType :: "string option"

record Profile =
  profile_id :: string
  profile_email :: string
  profile_role :: string
  profile_status :: string
  profile_created_at :: string

record user =
  user_id :: string
  user_email :: string

datatype request =
    ProfilesSelectSingle string
  | AccessLogsInsert string string string string
  | StorageList string string
  | StorageUpload string string bytes string string
  | StorageDownload string string
  | StorageRemove string "string list"
  | ProfilesSelectAll
  | ProfilesUpdateStatus string string
  | RpcDeleteUserByAdmin string
  | AuthSignUp string string string

text \<open>
  \<^item> \<open>profiles_select_single id\<close>:
    \<open>from('profiles').select('role, status').eq('id', id).single()\<close>;
  \<^item> \<open>access_logs_insert user_id action file_name details\<close>:
    \<open>from('access_logs').insert({...})\<close>;
  \<^item> \<open>storage_list bucket path\<close>, \<open>storage_upload bucket path body contentType
    originalType\<close>, \<open>storage_download bucket path\<close>, \<open>storage_remove bucket paths\<close>:
    the calls on \<open>storage.from(bucket)\<close>;
  \<^item> \<open>profiles_select_all\<close>: \<open>from('profiles').select('*').order(...)\<close>;
  \<^item> \<open>profiles_update_status id status\<close>:
    \<open>from('profiles').update({status}).eq('id', id)\<close>;
  \<^item> \<open>rpc_delete_user_by_admin id\<close>: \<open>rpc('delete_user_by_admin', {target_user_id: id})\<close>;
  \<^item> \<open>auth_signUp email password status\<close>: \<open>auth.signUp\<close>, whose \<open>data.user\<close> may be
    absent.
\<close>

record 'b supabase =
  profiles_select_single :: "string \<Rightarrow> 'b \<Rightarrow> (error + UserProfile result) \<times> 'b"
  access_logs_insert :: "string \<Rightarrow> string \<Rightarrow> string \<Rightarrow> string \<Rightarrow> 'b \<Rightarrow> (error + unit result) \<times> 'b"
  storage_list :: "string \<Rightarrow> string \<Rightarrow> 'b \<Rightarrow> (error + FileObject list option result) \<times> 'b"
  storage_upload :: "string \<Rightarrow> string \<Rightarrow> bytes \<Rightarrow> string \<Rightarrow> string \<Rightarrow> 'b \<Rightarrow> (error + unit result) \<times> 'b"
  storage_download :: "string \<Rightarrow> string \<Rightarrow> 'b \<Rightarrow> (error + bytes result) \<times> 'b"
  storage_remove :: "string \<Rightarrow> string list \<Rightarrow> 'b \<Rightarrow> (error + unit result) \<times> 'b"
  profiles_select_all :: "'b \<Rightarrow> (error + Profile list option result) \<times> 'b"
  profiles_update_status :: "string \<Rightarrow> string \<Rightarrow> 'b \<Rightarrow> (error + unit result) \<times> 'b"
  rpc_delete_user_by_admin :: "string \<Rightarrow> 'b \<Rightarrow> (error + unit result) \<times> 'b"
  auth_signUp :: "string \<Rightarrow> string \<Rightarrow> string \<Rightarrow> 'b \<Rightarrow> (error + user option result) \<times> 'b"

text \<open>
  What a component can reach outside its own state: the backend, with the list of the
  calls sent to it, the console, the \<open>alert\<close> dialogs shown, the files handed to the
  browser for saving (name, content, type), and the inputs given to \<open>encryptFile\<close> and
  \<open>decryptFile\<close> and, inside \<open>decryptFile\<close>, to the AES-GCM decryption (the
  initialization vector and the data) and to the legacy library (the blob).
\<close>

datatype crypto_op =
    Encrypted bytes
  | Decrypted bytes
  | GcmDecrypted bytes bytes
  | CryptoJSDecrypted bytes

record 'b io =
  backend :: 'b
  sent :: "request list"
  console :: "string list"
  alerts :: "string list"
  saved :: "(string \<times> bytes \<times> string) list"
  crypto_log :: "crypto_op list"

definition call :: "request \<Rightarrow> ('b \<Rightarrow> (error + 'a) \<times> 'b) \<Rightarrow> (('b, 'm) io_scheme, 'a) proc" where
  "call rq f w =
     (case f (backend w) of (r, b') \<Rightarrow> (r, w\<lparr>backend := b', sent := sent w @ [rq]\<rparr>))"

definition console_log :: "string \<Rightarrow> (('b, 'm) io_scheme, unit) proc" where
  "console_log line = update (\<lambda>w. w\<lparr>console := console w @ [line]\<rparr>)"

definition alert :: "string \<Rightarrow> (('b, 'm) io_scheme, unit) proc" where
  "alert text = update (\<lambda>w. w\<lparr>alerts := alerts w @ [text]\<rparr>)"

section \<open>The dashboard\<close>

text \<open>
  The state of \<open>DashboardView\<close> (the \<open>useState\<close> cells the handlers below use). The
  object URL of a preview is the blob it points to: its bytes and its type.
  \<open>pending_timeouts\<close> counts the timers that \<open>showToast\<close> has started.
\<close>

datatype toast_type = ToastSuccess | ToastError

record 'b dashboard = "'b io" +
  files :: "FileObject list"
  uploading :: bool
  loadingFiles :: bool
  toast :: "(toast_type \<times> string) option"
  pending_timeouts :: nat
  userProfile :: "UserProfile option"
  loadingProfile :: bool
  previewUrl :: "(bytes \<times> string) option"
  previewName :: "string option"
  previewing :: bool

record File =
  file_name :: string
  file_type :: string
  file_content :: bytes

definition file_size :: "File \<Rightarrow> nat" where
  "file_size file = length (file_content file)"

definition ENCRYPTION_KEY :: "user option \<Rightarrow> string" where
  "ENCRYPTION_KEY usr =
     (case usr of
        None \<Rightarrow> ''default-secret-key''
      | Some u \<Rightarrow> if user_id u = [] then ''default-secret-key'' else user_id u)"

definition bucketName :: string where
  "bucketName = ''emergency-tools''"

text \<open>\<open>user?.id\<close> inside a string: the text \<open>undefined\<close> when there is no user.\<close>

definition optional_id :: "user option \<Rightarrow> string" where
  "optional_id usr = (case usr of None \<Rightarrow> ''undefined'' | Some u \<Rightarrow> user_id u)"

text \<open>A natural number inside a template string: its decimal digits.\<close>

definition digit_char :: "nat \<Rightarrow> char" where
  "digit_char n = char_of (48 + n mod 10)"

function number_to_string :: "nat \<Rightarrow> string" where
  "number_to_string n =
     (if n < 10 then [digit_char n] else number_to_string (n div 10) @ [digit_char n])"
  by pat_completeness auto
termination
  by (relation "measure (\<lambda>n. n)") auto

declare number_to_string.simps [simp del]

text \<open>
  \<open>showToast\<close> sets the toast and starts the timer that clears it three seconds later;
  \<open>toast_timeout\<close> is the callback of that timer.
\<close>

definition showToast :: "toast_type \<Rightarrow> string \<Rightarrow> ('b dashboard, unit) proc" where
  "showToast type msg =
     update (\<lambda>w. w\<lparr>toast := Some (type, msg), pending_timeouts := pending_timeouts w + 1\<rparr>)"

definition toast_timeout :: "'b dashboard \<Rightarrow> 'b dashboard" where
  "toast_timeout w = w\<lparr>toast := None, pending_timeouts := pending_timeouts w - 1\<rparr>"

text \<open>
  \<open>encryptFile\<close> and \<open>decryptFile\<close> as the handlers call them, with their effects:
  the input is noted in \<open>crypto_log\<close>, as are the calls of the two decryption
  primitives, and \<open>decryptFile\<close> writes its warning to the console before the legacy
  decryption.
\<close>

definition encryptFile_proc ::
  "crypto \<Rightarrow> string \<Rightarrow> bytes \<Rightarrow> File \<Rightarrow> ('b dashboard, bytes) proc" where
  "encryptFile_proc C secret iv file =
     seq (update (\<lambda>w. w\<lparr>crypto_log := crypto_log w @ [Encrypted (file_content file)]\<rparr>))
       (\<lambda>_. lift (encryptFile C secret iv (file_content file)))"

definition decryptFile_proc ::
  "crypto \<Rightarrow> string \<Rightarrow> bytes \<Rightarrow> bytes \<Rightarrow> ('b dashboard, bytes) proc" where
  "decryptFile_proc C secret salt blob =
     seq (update (\<lambda>w. w\<lparr>crypto_log := crypto_log w @ [Decrypted blob]\<rparr>))
       (\<lambda>_. try_catch
          (let firstBytes = slice blob 0 (Some 10);
               header = fromCharCode firstBytes
           in if header = ''U2FsdGVkX1'' then throw LegacyFormatDetected
              else
                let key = getCryptoKey C secret;
                    iv = slice blob 0 (Some 12);
                    data = slice blob 12 None
                in seq (update (\<lambda>w. w\<lparr>crypto_log := crypto_log w @ [GcmDecrypted iv data]\<rparr>))
                     (\<lambda>_. lift (case gcm_decrypt C key iv data of
                                   None \<Rightarrow> Inl OperationError
                                 | Some decryptedBuffer \<Rightarrow> Inr decryptedBuffer)))
          (\<lambda>e. seq (console_log (''Attempting Legacy Decryption... '' @ message e))
             (\<lambda>_. seq (update (\<lambda>w. w\<lparr>crypto_log := crypto_log w @ [CryptoJSDecrypted blob]\<rparr>))
             (\<lambda>_. lift (decryptFile_catch C secret salt blob)))))"


definition logAction ::
  "'b supabase \<Rightarrow> user option \<Rightarrow> string \<Rightarrow> string \<Rightarrow> string \<Rightarrow> ('b dashboard, unit) proc" where
  "logAction S usr action fileName details =
     (case usr of
        None \<Rightarrow> ret ()
      | Some u \<Rightarrow>
          try_catch
            (seq (call (AccessLogsInsert (user_id u) action fileName details)
                    (access_logs_insert S (user_id u) action fileName details))
               (\<lambda>res. ret ()))
            (\<lambda>e. console_log ''Logging failed:''))"

definition fetchFiles :: "'b supabase \<Rightarrow> user option \<Rightarrow> ('b dashboard, unit) proc" where
  "fetchFiles S usr =
     finally_do
       (try_catch
          (seq (call (StorageList bucketName (optional_id usr @ ''/''))
                  (storage_list S bucketName (optional_id usr @ ''/'')))
             (\<lambda>res. case res of
                Error m \<Rightarrow> throw (Failure m)
              | Data d \<Rightarrow>
                  update (\<lambda>w. w\<lparr>files := (case d of None \<Rightarrow> [] | Some fs \<Rightarrow> fs)\<rparr>)))
          (\<lambda>e. console_log (''Error fetching files: '' @ message e)))
       (\<lambda>w. w\<lparr>loadingFiles := False\<rparr>)"

text \<open>
  The effect that loads the files,
  \<open>if (user && userProfile?.status === 'approved') fetchFiles()\<close>.
\<close>

definition files_effect :: "'b supabase \<Rightarrow> user option \<Rightarrow> ('b dashboard, unit) proc" where
  "files_effect S usr w =
     (if usr \<noteq> None \<and> (case userProfile w of None \<Rightarrow> False | Some p \<Rightarrow> status p = ''approved'')
      then spawn (fetchFiles S usr) w
      else ret () w)"

definition MAX_FILE_SIZE :: nat where
  "MAX_FILE_SIZE = 50 * 1024 * 1024"

text \<open>
  \<open>handleFileUpload\<close>. \<open>formatSize\<close> computes with floating-point logarithms and is
  taken as a parameter; \<open>iv\<close> is the value the random generator returns to
  \<open>encryptFile\<close>. The pause of half a second before the encryption changes no state.
\<close>

definition handleFileUpload ::
  "'b supabase \<Rightarrow> crypto \<Rightarrow> (nat \<Rightarrow> string) \<Rightarrow> user option \<Rightarrow> bytes \<Rightarrow> File
     \<Rightarrow> ('b dashboard, unit) proc" where
  "handleFileUpload S C formatSize usr iv file =
     (case usr of
        None \<Rightarrow> ret ()
      | Some u \<Rightarrow>
          if file_size file > MAX_FILE_SIZE
          then showToast ToastError
                 (''File too large ('' @ formatSize (file_size file)
                    @ ''). Limit is 50MB for browser encryption.'')
          else
            seq (update (\<lambda>w. w\<lparr>uploading := True\<rparr>))
              (\<lambda>_. seq (showToast ToastSuccess ''Processing encryption...'')
              (\<lambda>_. finally_do
                 (try_catch
                    (seq (try_catch (encryptFile_proc C (ENCRYPTION_KEY usr) iv file)
                            (\<lambda>encError.
                               seq (console_log ''Encryption Memory Error'')
                                 (\<lambda>_. throw (Failure
                                    ''Phone ran out of memory during encryption. Try a smaller file.''))))
                       (\<lambda>encryptedBlob.
                          let filePath = user_id u @ ''/'' @ file_name file
                          in seq (call (StorageUpload bucketName filePath encryptedBlob
                                          ''application/encrypted'' (file_type file))
                                    (storage_upload S bucketName filePath encryptedBlob
                                          ''application/encrypted'' (file_type file)))
                               (\<lambda>res. case res of
                                  Error m \<Rightarrow> throw (Failure m)
                                | Data d \<Rightarrow>
                                    seq (logAction S usr ''UPLOAD'' (file_name file)
                                           (''Size: '' @ number_to_string (file_size file) @ '' bytes''))
                                      (\<lambda>_. seq (showToast ToastSuccess
                                                  (''Encrypted & Uploaded '' @ file_name file))
                                      (\<lambda>_. spawn (fetchFiles S usr))))))
                    (\<lambda>error.
                       seq (console_log ''Upload failed:'')
                         (\<lambda>_. showToast ToastError
                            (if message error = [] then ''Upload failed. Try a smaller file.''
                             else message error))))
                 (\<lambda>w. w\<lparr>uploading := False\<rparr>))))"

text \<open>
  The string functions of the preview: \<open>toLowerCase\<close> on the letters \<open>A\<close> to \<open>Z\<close>,
  \<open>endsWith\<close>, \<open>startsWith\<close>, and the match of \<open>/\.(mp4|webm|ogg|mov)$/\<close>.
\<close>

definition toLowerCase :: "string \<Rightarrow> string" where
  "toLowerCase str =
     map (\<lambda>c. let n = (of_char c :: nat) in if 65 \<le> n \<and> n \<le> 90 then char_of (n + 32) else c) str"

definition endsWith :: "string \<Rightarrow> string \<Rightarrow> bool" where
  "endsWith str suffix =
     (length suffix \<le> length str \<and> drop (length str - length suffix) str = suffix)"

definition startsWith :: "string \<Rightarrow> string \<Rightarrow> bool" where
  "startsWith str prefix = (take (length prefix) str = prefix)"

definition matches_video_extension :: "string \<Rightarrow> bool" where
  "matches_video_extension str =
     (endsWith str ''.mp4'' \<or> endsWith str ''.webm'' \<or> endsWith str ''.ogg'' \<or> endsWith str ''.mov'')"

definition preview_blob_type :: "string \<Rightarrow> string \<Rightarrow> string" where
  "preview_blob_type fileName originalType =
     (let isPdf = (endsWith (toLowerCase fileName) ''.pdf'' \<or> originalType = ''application/pdf'');
          isTxt = endsWith (toLowerCase fileName) ''.txt'';
          isVideo = (matches_video_extension (toLowerCase fileName)
                     \<or> startsWith originalType ''video/'')
      in if isPdf then ''application/pdf''
         else if isTxt then ''text/plain''
         else if isVideo then (if originalType = [] then ''video/mp4'' else originalType)
         else originalType)"

text \<open>
  \<open>handlePreview\<close> and \<open>handleDownload\<close>. The argument \<open>originalType\<close> is
  \<open>file.metadata?.originalType\<close>, and the default of the parameter stands in when it
  is absent; \<open>salt\<close> is the random draw of the legacy library inside \<open>decryptFile\<close>.
\<close>

definition handlePreview ::
  "'b supabase \<Rightarrow> crypto \<Rightarrow> bytes \<Rightarrow> user option \<Rightarrow> string \<Rightarrow> string option
     \<Rightarrow> ('b dashboard, unit) proc" where
  "handlePreview S C salt usr fileName originalTypeArg =
     (let originalType = (case originalTypeArg of None \<Rightarrow> ''image/png'' | Some t \<Rightarrow> t);
          path = optional_id usr @ ''/'' @ fileName
      in seq (console_log (''Starting preview for: '' @ fileName))
           (\<lambda>_. seq (update (\<lambda>w. w\<lparr>previewing := True, previewName := Some fileName\<rparr>))
           (\<lambda>_. finally_do
              (try_catch
                 (seq (call (StorageDownload bucketName path) (storage_download S bucketName path))
                    (\<lambda>res. case res of
                       Error m \<Rightarrow> throw (Failure m)
                     | Data d \<Rightarrow>
                         seq (try_catch (decryptFile_proc C (ENCRYPTION_KEY usr) salt d)
                                (\<lambda>e. seq (console_log ''Decryption failed for preview'')
                                        (\<lambda>_. ret d)))
                           (\<lambda>finalBlob.
                              update (\<lambda>w. w\<lparr>previewUrl :=
                                Some (finalBlob, preview_blob_type fileName originalType)\<rparr>))))
                 (\<lambda>error.
                    seq (console_log ''Preview Error'')
                      (\<lambda>_. seq (showToast ToastError ''Failed to load preview'')
                      (\<lambda>_. update (\<lambda>w. w\<lparr>previewName := None\<rparr>)))))
              (\<lambda>w. w\<lparr>previewing := False\<rparr>))))"

definition handleDownload ::
  "'b supabase \<Rightarrow> crypto \<Rightarrow> bytes \<Rightarrow> user option \<Rightarrow> string \<Rightarrow> string option
     \<Rightarrow> ('b dashboard, unit) proc" where
  "handleDownload S C salt usr fileName originalTypeArg =
     (let originalType =
            (case originalTypeArg of None \<Rightarrow> ''application/octet-stream'' | Some t \<Rightarrow> t);
          path = optional_id usr @ ''/'' @ fileName
      in try_catch
           (seq (call (StorageDownload bucketName path) (storage_download S bucketName path))
              (\<lambda>res. case res of
                 Error m \<Rightarrow> throw (Failure m)
               | Data d \<Rightarrow>
                   seq (try_catch
                          (seq (decryptFile_proc C (ENCRYPTION_KEY usr) salt d)
                             (\<lambda>decrypted.
                                seq (showToast ToastSuccess ''File Decrypted Successfully'')
                                  (\<lambda>_. ret decrypted)))
                          (\<lambda>e. seq (console_log ''Decryption failed'') (\<lambda>_. ret d)))
                     (\<lambda>finalBlob.
                        seq (update (\<lambda>w. w\<lparr>saved := saved w @ [(fileName, finalBlob, originalType)]\<rparr>))
                          (\<lambda>_. logAction S usr ''DOWNLOAD'' fileName []))))
           (\<lambda>error.
              seq (console_log ''Download Error'')
                (\<lambda>_. showToast ToastError
                   (if message error = [] then ''Download failed'' else message error))))"

text \<open>\<open>handleDelete\<close>; \<open>confirmed\<close> is the answer to the \<open>confirm\<close> dialog.\<close>

definition handleDelete ::
  "'b supabase \<Rightarrow> user option \<Rightarrow> bool \<Rightarrow> string \<Rightarrow> ('b dashboard, unit) proc" where
  "handleDelete S usr confirmed fileName =
     (if \<not> confirmed then ret ()
      else
        try_catch
          (seq (call (StorageRemove bucketName [optional_id usr @ ''/'' @ fileName])
                  (storage_remove S bucketName [optional_id usr @ ''/'' @ fileName]))
             (\<lambda>res. case res of
                Error m \<Rightarrow> throw (Failure m)
              | Data d \<Rightarrow>
                  seq (logAction S usr ''DELETE'' fileName [])
                    (\<lambda>_. seq (showToast ToastSuccess ''File deleted'')
                    (\<lambda>_. spawn (fetchFiles S usr)))))
          (\<lambda>error. showToast ToastError (message error)))"

text \<open>
  What \<open>DashboardView\<close> renders: the loading screen, one of the two blocking screens,
  or the vault (the upload zone, the file list with its preview, download and delete
  buttons, and the admin panel for an admin).
\<close>

datatype screen = VerifyingAccess | AccountPendingApproval | AccessDenied | Vault

definition render :: "'b dashboard \<Rightarrow> screen" where
  "render w =
     (if loadingProfile w then VerifyingAccess
      else case userProfile w of
             None \<Rightarrow> AccountPendingApproval
           | Some p \<Rightarrow>
               if status p = ''pending'' then AccountPendingApproval
               else if status p = ''rejected'' then AccessDenied
               else Vault)"

definition initial_dashboard :: "'b \<Rightarrow> 'b dashboard" where
  "initial_dashboard b =
     \<lparr> backend = b, sent = [], console = [], alerts = [], saved = [], crypto_log = [],
       files = [], uploading = False, loadingFiles = True, toast = None,
       pending_timeouts = 0, userProfile = None, loadingProfile = True,
       previewUrl = None, previewName = None, previewing = False \<rparr>"

section \<open>The admin panel\<close>

record 'b admin = "'b io" +
  users :: "Profile list"
  loading :: bool
  actionLoading :: "string option"
  newUserEmail :: string
  newUserPassword :: string
  isAddingUser :: bool





text \<open>
  The buttons of one row of the user table, each with the call its \<open>onClick\<close> makes,
  and the buttons of the whole panel (none while the panel is loading).
\<close>

datatype admin_action = UpdateUserStatus string string | DeleteUser string

record button =
  title :: string
  onClick :: admin_action
  disabled :: bool




section \<open>Storage paths\<close>

text \<open>
  The object paths a call names in the storage bucket, and the paths of a file and of
  the folder of a user.
\<close>

fun storage_paths :: "request \<Rightarrow> string list" where
  "storage_paths (StorageList bucket path) = [path]"
| "storage_paths (StorageUpload bucket path body contentType originalType) = [path]"
| "storage_paths (StorageDownload bucket path) = [path]"
| "storage_paths (StorageRemove bucket paths) = paths"
| "storage_paths other = []"

definition user_folder :: "user \<Rightarrow> string" where
  "user_folder u = user_id u @ ''/''"

definition user_file :: "user \<Rightarrow> string \<Rightarrow> string" where
  "user_file u fileName = user_id u @ ''/'' @ fileName"

text \<open>
  The paths of a call are scoped under the user for a file name: a listing names the
  folder of the user, every other storage call names the file in that folder.
\<close>

fun scoped :: "user \<Rightarrow> string \<Rightarrow> request \<Rightarrow> bool" where
  "scoped u fileName (StorageList bucket path) = (path = user_folder u)"
| "scoped u fileName rq = list_all (\<lambda>path. path = user_file u fileName) (storage_paths rq)"

section \<open>Two backends to run the handlers on\<close>

text \<open>
  \<open>memory_backend\<close> keeps the stored objects in a list of paths and contents, and
  every call succeeds except the download of a missing object; \<open>refusing_backend\<close>
  answers every call with an error and stores nothing.
\<close>

definition memory_backend :: "(string \<times> bytes) list supabase" where
  "memory_backend =
     \<lparr> profiles_select_single =
         (\<lambda>i b. (Inr (Data \<lparr>role = ''user'', status = ''approved''\<rparr>), b)),
       access_logs_insert = (\<lambda>i action fileName details b. (Inr (Data ()), b)),
       storage_list =
         (\<lambda>bucket path b.
            (Inr (Data (Some (map (\<lambda>entry. \<lparr>fo_name = drop (length path) (fst entry),
                                              fo_originalType = None\<rparr>)
                              (filter (\<lambda>entry. take (length path) (fst entry) = path) b)))), b)),
       storage_upload =
         (\<lambda>bucket path body contentType originalType b.
            (Inr (Data ()), (path, body) # filter (\<lambda>entry. fst entry \<noteq> path) b)),
       storage_download =
         (\<lambda>bucket path b.
            (case map_of b path of
               None \<Rightarrow> (Inr (Error ''Object not found''), b)
             | Some body \<Rightarrow> (Inr (Data body), b))),
       storage_remove =
         (\<lambda>bucket paths b. (Inr (Data ()), filter (\<lambda>entry. fst entry \<notin> set paths) b)),
       profiles_select_all = (\<lambda>b. (Inr (Data (Some [])), b)),
       profiles_update_status = (\<lambda>i newStatus b. (Inr (Data ()), b)),
       rpc_delete_user_by_admin = (\<lambda>i b. (Inr (Data ()), b)),
       auth_signUp = (\<lambda>mail password st b. (Inr (Data None), b)) \<rparr>"

definition refusing_backend :: "(string \<times> bytes) list supabase" where
  "refusing_backend =
     \<lparr> profiles_select_single = (\<lambda>i b. (Inr (Error ''denied''), b)),
       access_logs_insert = (\<lambda>i action fileName details b. (Inr (Error ''denied''), b)),
       storage_list = (\<lambda>bucket path b. (Inr (Error ''denied''), b)),
       storage_upload = (\<lambda>bucket path body contentType originalType b. (Inr (Error ''denied''), b)),
       storage_download = (\<lambda>bucket path b. (Inr (Error ''denied''), b)),
       storage_remove = (\<lambda>bucket paths b. (Inr (Error ''denied''), b)),
       profiles_select_all = (\<lambda>b. (Inr (Error ''denied''), b)),
       profiles_update_status = (\<lambda>i newStatus b. (Inr (Error ''denied''), b)),
       rpc_delete_user_by_admin = (\<lambda>i b. (Inr (Error ''denied''), b)),
       auth_signUp = (\<lambda>mail password st b. (Inr (Error ''denied''), b)) \<rparr>"

definition alice :: user where
  "alice = \<lparr>user_id = ''alice'', user_email = ''alice@example.org''\<rparr>"

definition notes_file :: File where
  "notes_file = \<lparr>file_name = ''notes.txt'', file_type = ''text/plain'', file_content = [104, 105]\<rparr>"

definition large_file :: File where
  "large_file =
     \<lparr>file_name = ''film.mp4'', file_type = ''video/mp4'',
      file_content = replicate 52428801 0\<rparr>"

definition sample_iv :: bytes where
  "sample_iv = [1, 2, 3, 4, 5, 6, 7, 8, 9, 10, 11, 12]"

definition sample_formatSize :: "nat \<Rightarrow> string" where
  "sample_formatSize n = number_to_string n @ '' B''"

definition initial_admin :: "'b \<Rightarrow> 'b admin" where
  "initial_admin b =
     \<lparr> backend = b, sent = [], console = [], alerts = [], saved = [], crypto_log = [],
       users = [], loading = True, actionLoading = None,
       newUserEmail = [], newUserPassword = [], isAddingUser = False \<rparr>"

section \<open>Properties of the handlers\<close>

text \<open>A call has failed when it throws or resolves with an \<open>error\<close>.\<close>

definition failed :: "error + 'a result \<Rightarrow> bool" where
  "failed r = (case r of Inl e \<Rightarrow> True | Inr (Error m) \<Rightarrow> True | Inr (Data d) \<Rightarrow> False)"

text \<open>
  A procedure of the dashboard keeps the calls already sent and adds only calls whose
  storage paths are scoped under the user for the file name.
\<close>

definition sends_scoped ::
  "user \<Rightarrow> string \<Rightarrow> ('b dashboard, unit) proc \<Rightarrow> 'b dashboard \<Rightarrow> bool" where
  "sends_scoped u fileName h w =
     (let after = sent (snd (h w))
      in take (length (sent w)) after = sent w
         \<and> list_all (scoped u fileName) (drop (length (sent w)) after))"


text \<open>
  Primitives that fail: AES-GCM rejects every call, and the legacy decoder returns a
  word array with a negative count of bytes, as it does on data it cannot unpad.
\<close>

definition failing_crypto :: crypto where
  "failing_crypto =
     \<lparr> utf8_encode = map (\<lambda>c. of_nat (of_char c)),
       sha256 = (\<lambda>bs. bs),
       gcm_encrypt = (\<lambda>key iv plain. None),
       gcm_decrypt = (\<lambda>key iv cipher. None),
       cryptojs_decrypt = (\<lambda>blob passphrase salt. Some \<lparr>words = [], sigBytes = - 1\<rparr>) \<rparr>"

definition bob :: Profile where
  "bob = \<lparr>profile_id = ''bob'', profile_email = ''bob@example.org'', profile_role = ''user'',
           profile_status = ''pending'', profile_created_at = ''2024-01-01''\<rparr>"

definition carol :: Profile where
  "carol = \<lparr>profile_id = ''carol'', profile_email = ''carol@example.org'', profile_role = ''user'',
             profile_status = ''approved'', profile_created_at = ''2024-01-02''\<rparr>"

definition sample_panel :: "(string \<times> bytes) list admin" where
  "sample_panel = (initial_admin [])\<lparr>users := [bob, carol], loading := False\<rparr>"

definition approve_bob :: button where
  "approve_bob = \<lparr>title = ''Approve'', onClick = UpdateUserStatus ''bob'' ''approved'',
                   disabled = False\<rparr>"

definition stored_vault :: "(string \<times> bytes) list dashboard" where
  "stored_vault = initial_dashboard [(''alice/notes.txt'', [1, 2, 3])]"

definition waiting_dashboard :: "(string \<times> bytes) list dashboard" where
  "waiting_dashboard =
     (initial_dashboard [])\<lparr>loadingProfile := False,
        userProfile := Some \<lparr>role = ''user'', status = ''pending''\<rparr>\<rparr>"

definition approved_dashboard :: "(string \<times> bytes) list dashboard" where
  "approved_dashboard =
     stored_vault\<lparr>loadingProfile := False,
        userProfile := Some \<lparr>role = ''user'', status = ''approved''\<rparr>\<rparr>"

text \<open>
  The controls of the vault (the upload zone and the preview, download and delete
  buttons of a file) exist only on the vault screen: an event of the vault runs its
  handler when the vault is rendered, and cannot happen on another screen.
\<close>

datatype vault_event =
    DropFile bytes File
  | ClickPreview string "string option"
  | ClickDownload string "string option"
  | ClickDelete bool string

definition vault_event_handler ::
  "'b supabase \<Rightarrow> crypto \<Rightarrow> (nat \<Rightarrow> string) \<Rightarrow> bytes \<Rightarrow> user option \<Rightarrow> vault_event
     \<Rightarrow> ('b dashboard, unit) proc" where
  "vault_event_handler S C formatSize salt usr ev w =
     (if render w = Vault
      then (case ev of
              DropFile iv file \<Rightarrow> handleFileUpload S C formatSize usr iv file w
            | ClickPreview fileName originalType \<Rightarrow>
                handlePreview S C salt usr fileName originalType w
            | ClickDownload fileName originalType \<Rightarrow>
                handleDownload S C salt usr fileName originalType w
            | ClickDelete confirmed fileName \<Rightarrow> handleDelete S usr confirmed fileName w)
      else ret () w)"

definition suspended_dashboard :: "(string \<times> bytes) list dashboard" where
  "suspended_dashboard =
     stored_vault\<lparr>loadingProfile := False,
        userProfile := Some \<lparr>role = ''user'', status = ''suspended''\<rparr>\<rparr>"

section \<open>Serialization of word arrays\<close>

lemma ff_mask: "(0xff :: 32 word) = mask 8"
  by (simp add: mask_eq_exp_minus_1)

lemma byte4_eq: "byte4 w = ucast w"
  unfolding byte4_def ff_mask
  by (rule bit_word_eqI) (simp add: bit_simps)

lemma byte1_eq: "byte1 w = ucast (drop_bit 24 w)"
  unfolding byte1_def ff_mask
  by (rule bit_word_eqI) (auto simp add: bit_simps)

lemma byte2_eq: "byte2 w = ucast (drop_bit 16 w)"
  unfolding byte2_def ff_mask
  by (rule bit_word_eqI) (auto simp add: bit_simps)

lemma byte3_eq: "byte3 w = ucast (drop_bit 8 w)"
  unfolding byte3_def ff_mask
  by (rule bit_word_eqI) (auto simp add: bit_simps)

lemma put_byte_filled: "put_byte len b (filled len xs) = filled len (xs @ [b])"
proof (cases "length xs < len")
  case True
  then obtain k where k: "len - length xs = Suc k"
    by (metis Suc_diff_Suc)
  then have k': "len - Suc (length xs) = k"
    by simp
  from True show ?thesis
    by (simp add: put_byte_def filled_def k k' list_update_append)
next
  case False
  then show ?thesis
    by (simp add: put_byte_def filled_def)
qed

lemma word_body_filled: "word_body len (filled len xs) w = filled len (xs @ be_bytes w)"
  by (simp add: word_body_def put_byte_filled be_bytes_def byte1_eq byte2_eq byte3_eq byte4_eq)

lemma foldl_word_body_filled:
  "foldl (word_body len) (filled len xs) ws = filled len (xs @ be_concat ws)"
  by (induction ws arbitrary: xs) (simp_all add: word_body_filled be_concat_def)

lemma length_be_concat: "length (be_concat ws) = 4 * length ws"
  by (induction ws) (simp_all add: be_concat_def be_bytes_def)

lemma convert_eq:
  assumes "0 \<le> sigBytes wa"
  shows "convertWordArrayToUint8Array wa =
     Inr (take (nat (sigBytes wa)) (be_concat (words wa))
          @ replicate (nat (sigBytes wa) - 4 * length (words wa)) 0)"
proof -
  let ?len = "nat (sigBytes wa)"
  have init: "(replicate ?len (0::byte), 0::nat) = filled ?len []"
    by (simp add: filled_def)
  have "foldl (word_body ?len) (replicate ?len 0, 0) (words wa)
        = filled ?len (be_concat (words wa))"
    unfolding init by (simp add: foldl_word_body_filled)
  then show ?thesis using assms
    by (simp add: convertWordArrayToUint8Array_def Let_def filled_def length_be_concat)
qed

text \<open>
  C10. For a word array whose \<open>sigBytes\<close> lies between 0 and four times the number of
  its words, \<open>convertWordArrayToUint8Array\<close> returns an array of exactly \<open>sigBytes\<close>
  bytes, and its byte \<open>i\<close> is byte \<open>i\<close> of the concatenated big-endian encodings of
  the words.
\<close>

theorem convertWordArray_big_endian:
  assumes "0 \<le> sigBytes wa" and "sigBytes wa \<le> 4 * int (length (words wa))"
  shows "\<exists>u8. convertWordArrayToUint8Array wa = Inr u8
           \<and> int (length u8) = sigBytes wa
           \<and> (\<forall>i < length u8. u8 ! i = be_concat (words wa) ! i)"
  using assms by (simp add: convert_eq length_be_concat)

theorem convertWordArray_big_endian_witness:
  "0 \<le> sigBytes \<lparr>words = [0x01020304, 0xFFEEDDCC], sigBytes = 6\<rparr>
   \<and> sigBytes \<lparr>words = [0x01020304, 0xFFEEDDCC], sigBytes = 6\<rparr>
       \<le> 4 * int (length (words \<lparr>words = [0x01020304, 0xFFEEDDCC], sigBytes = 6\<rparr>))
   \<and> (\<exists>u8. convertWordArrayToUint8Array \<lparr>words = [0x01020304, 0xFFEEDDCC], sigBytes = 6\<rparr> = Inr u8
           \<and> int (length u8) = sigBytes \<lparr>words = [0x01020304, 0xFFEEDDCC], sigBytes = 6\<rparr>
           \<and> (\<forall>i < length u8.
                 u8 ! i = be_concat (words \<lparr>words = [0x01020304, 0xFFEEDDCC], sigBytes = 6\<rparr>) ! i))"
proof -
  let ?wa = "\<lparr>words = [0x01020304, 0xFFEEDDCC], sigBytes = 6\<rparr>"
  have h1: "0 \<le> sigBytes ?wa"
    by simp
  have h2: "sigBytes ?wa \<le> 4 * int (length (words ?wa))"
    by simp
  from convertWordArray_big_endian [OF h1 h2] h1 h2 show ?thesis
    by blast
qed

section \<open>Encryption and decryption\<close>

lemma replicate_two: "replicate 2 x = [x, x]"
  by (simp add: numeral_2_eq_2)

lemma slice_take: "slice buffer 0 (Some n) = take n buffer"
  by (simp add: slice_def Let_def min_def)

lemma slice_drop: "slice buffer n None = drop n buffer"
  by (simp add: slice_def Let_def min_def)

lemma char_of_unat_eq: "char_of (unat (b::byte)) = c \<longleftrightarrow> b = of_nat (of_char c)"
proof
  assume "char_of (unat b) = c"
  then have "of_char c = (unat b mod 256 :: nat)"
    by (auto simp: of_char_of)
  moreover have "unat b < 256"
    using unsigned_less [of b, where ?'a = nat] by simp
  ultimately show "b = of_nat (of_char c)"
    by simp
next
  assume "b = of_nat (of_char c)"
  then show "char_of (unat b) = c"
    by (simp add: unat_of_nat)
qed

lemma header_iff: "fromCharCode bs = ''U2FsdGVkX1'' \<longleftrightarrow> bs = legacy_signature"
  by (auto simp add: fromCharCode_def legacy_signature_def map_eq_Cons_conv char_of_unat_eq)

lemma sample_gcm_correct: "gcm_correct sample_crypto"
  by (auto simp add: gcm_correct_def sample_crypto_def sample_tag_def map_idI comp_def)

text \<open>
  A blob that starts with the legacy signature never reaches AES-GCM: whatever the
  primitives are, its decryption is the legacy decoder's.
\<close>

lemma decryptFile_signature:
  "take 10 blob = legacy_signature \<Longrightarrow> decryptFile C secret salt blob = decryptFile_catch C secret salt blob"
  by (simp add: decryptFile_def decryptFile_try_def Let_def slice_take header_iff)

lemma convert_length:
  assumes "convertWordArrayToUint8Array wa = Inr u8"
  shows "int (length u8) = sigBytes wa"
proof (cases "sigBytes wa < 0")
  case True
  with assms show ?thesis
    by (simp add: convertWordArrayToUint8Array_def)
next
  case False
  then have "0 \<le> sigBytes wa"
    by simp
  from convert_eq [OF this] assms False show ?thesis
    by (auto simp add: length_be_concat)
qed

text \<open>
  So when the initialization vector starts with the legacy signature, the file is
  recovered only if the legacy decoder happens to return it; it is lost whenever the
  legacy decoder returns fewer bytes than the file has.
\<close>

lemma signature_iv_loses_file:
  assumes "take 10 iv = legacy_signature"
    and "encryptFile C secret iv file = Inr blob"
    and "\<And>wa. cryptojs_decrypt C blob secret salt = Some wa \<Longrightarrow> sigBytes wa < int (length file)"
  shows "decryptFile C secret salt blob \<noteq> Inr file"
proof
  assume r: "decryptFile C secret salt blob = Inr file"
  from assms(2) obtain cipher where b: "blob = iv @ cipher"
    by (auto simp: encryptFile_def Let_def split: option.splits)
  from assms(1) have "length iv \<ge> 10"
    by (cases "length iv \<ge> 10") (auto simp add: legacy_signature_def)
  with assms(1) b have "take 10 blob = legacy_signature"
    by simp
  from decryptFile_signature [OF this] r
  have c: "decryptFile_catch C secret salt blob = Inr file"
    by simp
  then obtain wa where wa: "cryptojs_decrypt C blob secret salt = Some wa"
    and u8: "convertWordArrayToUint8Array wa = Inr file"
    by (auto simp add: decryptFile_catch_def split: option.splits)
  from convert_length [OF u8] assms(3) [OF wa] show False
    by simp
qed

text \<open>
  C1, as stated: decrypting the output of \<open>encryptFile\<close> with the same key returns the
  file, for every file, key and 12-byte initialization vector. It fails for an
  initialization vector that starts with the ten bytes of the legacy signature: the
  blob then starts with the signature, \<open>decryptFile\<close> throws before AES-GCM and hands
  the blob to the legacy decoder. On the sample primitives, whose AES-GCM decryption
  inverts encryption, the file \<open>[1, 2, 3]\<close> comes back as the empty file (with the
  random draw \<open>sample_salt\<close>).
\<close>

theorem roundtrip_counterexample:
  "length (legacy_signature @ [0, 0]) = 12
   \<and> encryptFile sample_crypto ''alice'' (legacy_signature @ [0, 0]) [1, 2, 3]
       = Inr (legacy_signature @ [0, 0] @ [0xfe, 0xfd, 0xfc] @ sample_tag)
   \<and> decryptFile sample_crypto ''alice'' sample_salt (legacy_signature @ [0, 0] @ [0xfe, 0xfd, 0xfc] @ sample_tag)
       = Inr []
   \<and> decryptFile sample_crypto ''alice'' sample_salt (legacy_signature @ [0, 0] @ [0xfe, 0xfd, 0xfc] @ sample_tag)
       \<noteq> Inr [1, 2, 3]"
proof -
  have take10: "take 10 (legacy_signature @ [0, 0] @ [0xfe, 0xfd, 0xfc] @ sample_tag) = legacy_signature"
    by (simp add: legacy_signature_def)
  have dec: "decryptFile sample_crypto ''alice'' sample_salt
      (legacy_signature @ [0, 0] @ [0xfe, 0xfd, 0xfc] @ sample_tag) = Inr []"
    unfolding decryptFile_signature [OF take10]
    by (simp add: decryptFile_catch_def sample_crypto_def sample_salt_def full_header_def
        legacy_signature_def convertWordArrayToUint8Array_def)
  have enc: "encryptFile sample_crypto ''alice'' (legacy_signature @ [0, 0]) [1, 2, 3]
       = Inr (legacy_signature @ [0, 0] @ [0xfe, 0xfd, 0xfc] @ sample_tag)"
    by (simp add: encryptFile_def sample_crypto_def getCryptoKey_def)
  have len: "length (legacy_signature @ [0, 0]) = 12"
    by (simp add: legacy_signature_def)
  from len enc dec show ?thesis
    by simp
qed

text \<open>
  C1, amended: when AES-GCM decryption inverts AES-GCM encryption, and the 12-byte
  initialization vector does not start with the ten bytes of the legacy signature,
  decrypting the output of \<open>encryptFile\<close> with the same key returns the file.
\<close>

theorem roundtrip:
  assumes "gcm_correct C" and "length iv = 12" and "take 10 iv \<noteq> legacy_signature"
    and "encryptFile C secret iv file = Inr blob"
  shows "decryptFile C secret salt blob = Inr file"
proof -
  from assms(4) obtain cipher
    where c: "gcm_encrypt C (getCryptoKey C secret) iv file = Some cipher"
      and b: "blob = iv @ cipher"
    by (auto simp: encryptFile_def Let_def split: option.splits)
  from assms(1) c have d: "gcm_decrypt C (getCryptoKey C secret) iv cipher = Some file"
    by (simp add: gcm_correct_def)
  from assms(2,3) b have "take 10 blob \<noteq> legacy_signature"
    by simp
  then show ?thesis using assms(2) b d
    by (simp add: decryptFile_def decryptFile_try_def Let_def slice_take slice_drop header_iff)
qed

theorem roundtrip_witness:
  "gcm_correct sample_crypto \<and> length sample_iv = 12 \<and> take 10 sample_iv \<noteq> legacy_signature
   \<and> encryptFile sample_crypto ''alice'' sample_iv [1, 2, 3]
       = Inr (sample_iv @ [0xfe, 0xfd, 0xfc] @ sample_tag)
   \<and> decryptFile sample_crypto ''alice'' sample_salt (sample_iv @ [0xfe, 0xfd, 0xfc] @ sample_tag)
       = Inr [1, 2, 3]"
proof -
  have len: "length sample_iv = 12"
    by (simp add: sample_iv_def)
  have nsig: "take 10 sample_iv \<noteq> legacy_signature"
    by (simp add: sample_iv_def legacy_signature_def)
  have enc: "encryptFile sample_crypto ''alice'' sample_iv [1, 2, 3]
       = Inr (sample_iv @ [0xfe, 0xfd, 0xfc] @ sample_tag)"
    by (simp add: encryptFile_def sample_crypto_def getCryptoKey_def)
  from roundtrip [OF sample_gcm_correct len nsig enc] sample_gcm_correct len nsig enc
  show ?thesis
    by simp
qed



text \<open>
  The effects of \<open>decryptFile\<close>: its outcome is that of the function above; the
  AES-GCM decryption is called exactly when the blob does not start with the
  signature; the legacy library is called, after the warning on the console, exactly
  when the blob starts with the signature or the AES-GCM decryption throws.
\<close>

lemma decryptFile_proc_result:
  "fst (decryptFile_proc C secret salt blob w) = decryptFile C secret salt blob"
  by (simp add: decryptFile_proc_def decryptFile_def decryptFile_try_def seq_def try_catch_def
      update_def lift_def throw_def console_log_def Let_def split: option.split)

lemma decryptFile_proc_crypto_log:
  "crypto_log (snd (decryptFile_proc C secret salt blob w)) =
     crypto_log w @ Decrypted blob #
       (if take 10 blob = legacy_signature then [CryptoJSDecrypted blob]
        else GcmDecrypted (take 12 blob) (drop 12 blob) #
          (case gcm_decrypt C (getCryptoKey C secret) (take 12 blob) (drop 12 blob) of
             None \<Rightarrow> [CryptoJSDecrypted blob]
           | Some plain \<Rightarrow> []))"
  by (simp add: decryptFile_proc_def seq_def try_catch_def update_def lift_def throw_def
      console_log_def Let_def slice_take slice_drop header_iff split: option.split)

lemma decryptFile_proc_console:
  "console (snd (decryptFile_proc C secret salt blob w)) =
     console w @
       (if take 10 blob = legacy_signature
        then [''Attempting Legacy Decryption... Legacy Format Detected'']
        else case gcm_decrypt C (getCryptoKey C secret) (take 12 blob) (drop 12 blob) of
               None \<Rightarrow> [''Attempting Legacy Decryption... '' @ message OperationError]
             | Some plain \<Rightarrow> [])"
  by (simp add: decryptFile_proc_def seq_def try_catch_def update_def lift_def throw_def
      console_log_def Let_def slice_take slice_drop header_iff split: option.split)

text \<open>
  C3. \<open>decryptFile\<close> takes the legacy path exactly when the blob starts with the ten
  bytes of the legacy signature or the AES-GCM decryption of bytes 12 and later, under
  the initialization vector of bytes 0 to 11, throws: under that condition its result
  is the result of the CryptoJS decryption of the blob, and the run of \<open>decryptFile\<close>
  calls the legacy library and writes the warning to the console; otherwise its result
  is the AES-GCM plaintext, and the run does neither. AES-GCM is tried exactly when the
  blob does not start with the signature.
\<close>

theorem legacy_path_iff:
  "decryptFile C secret salt blob =
     (if take 10 blob = legacy_signature
         \<or> gcm_decrypt C (getCryptoKey C secret) (take 12 blob) (drop 12 blob) = None
      then decryptFile_catch C secret salt blob
      else case gcm_decrypt C (getCryptoKey C secret) (take 12 blob) (drop 12 blob) of
             None \<Rightarrow> Inl OperationError
           | Some plain \<Rightarrow> Inr plain)
   \<and> fst (decryptFile_proc C secret salt blob w) = decryptFile C secret salt blob
   \<and> (CryptoJSDecrypted blob
         \<in> set (drop (length (crypto_log w))
                  (crypto_log (snd (decryptFile_proc C secret salt blob w))))
       \<longleftrightarrow> (take 10 blob = legacy_signature
            \<or> gcm_decrypt C (getCryptoKey C secret) (take 12 blob) (drop 12 blob) = None))
   \<and> (console (snd (decryptFile_proc C secret salt blob w)) \<noteq> console w
       \<longleftrightarrow> (take 10 blob = legacy_signature
            \<or> gcm_decrypt C (getCryptoKey C secret) (take 12 blob) (drop 12 blob) = None))
   \<and> (GcmDecrypted (take 12 blob) (drop 12 blob)
         \<in> set (drop (length (crypto_log w))
                  (crypto_log (snd (decryptFile_proc C secret salt blob w))))
       \<longleftrightarrow> take 10 blob \<noteq> legacy_signature)"
proof (intro conjI)
  show "decryptFile C secret salt blob =
     (if take 10 blob = legacy_signature
         \<or> gcm_decrypt C (getCryptoKey C secret) (take 12 blob) (drop 12 blob) = None
      then decryptFile_catch C secret salt blob
      else case gcm_decrypt C (getCryptoKey C secret) (take 12 blob) (drop 12 blob) of
             None \<Rightarrow> Inl OperationError
           | Some plain \<Rightarrow> Inr plain)"
    by (simp add: decryptFile_def decryptFile_try_def Let_def slice_take slice_drop header_iff
        split: option.split)
  show "fst (decryptFile_proc C secret salt blob w) = decryptFile C secret salt blob"
    by (rule decryptFile_proc_result)
  show "CryptoJSDecrypted blob
         \<in> set (drop (length (crypto_log w))
                  (crypto_log (snd (decryptFile_proc C secret salt blob w))))
       \<longleftrightarrow> (take 10 blob = legacy_signature
            \<or> gcm_decrypt C (getCryptoKey C secret) (take 12 blob) (drop 12 blob) = None)"
    by (auto simp add: decryptFile_proc_crypto_log split: option.split)
  show "console (snd (decryptFile_proc C secret salt blob w)) \<noteq> console w
       \<longleftrightarrow> (take 10 blob = legacy_signature
            \<or> gcm_decrypt C (getCryptoKey C secret) (take 12 blob) (drop 12 blob) = None)"
    by (auto simp add: decryptFile_proc_console split: option.split)
  show "GcmDecrypted (take 12 blob) (drop 12 blob)
         \<in> set (drop (length (crypto_log w))
                  (crypto_log (snd (decryptFile_proc C secret salt blob w))))
       \<longleftrightarrow> take 10 blob \<noteq> legacy_signature"
    by (auto simp add: decryptFile_proc_crypto_log split: option.split)
qed

theorem legacy_path_iff_witness:
  "decryptFile sample_crypto ''alice'' other_salt [1, 2, 3]
     = decryptFile_catch sample_crypto ''alice'' other_salt [1, 2, 3]
   \<and> decryptFile sample_crypto ''alice'' other_salt [1, 2, 3] = Inr [0, 0]
   \<and> gcm_decrypt sample_crypto (getCryptoKey sample_crypto ''alice'') (take 12 [1, 2, 3])
        (drop 12 [1, 2, 3]) = None
   \<and> crypto_log (snd (decryptFile_proc sample_crypto ''alice'' other_salt [1, 2, 3] stored_vault))
       = [Decrypted [1, 2, 3], GcmDecrypted [1, 2, 3] [], CryptoJSDecrypted [1, 2, 3]]
   \<and> console (snd (decryptFile_proc sample_crypto ''alice'' other_salt [1, 2, 3] stored_vault))
       \<noteq> console stored_vault"
proof -
  have n: "gcm_decrypt sample_crypto (getCryptoKey sample_crypto ''alice'') (take 12 [1, 2, 3])
        (drop 12 [1, 2, 3]) = None"
    by (simp add: sample_crypto_def)
  have c: "decryptFile_catch sample_crypto ''alice'' other_salt [1, 2, 3] = Inr [0, 0]"
    by (simp add: decryptFile_catch_def sample_crypto_def other_salt_def full_header_def
        legacy_signature_def convertWordArrayToUint8Array_def replicate_two)
  have l: "crypto_log (snd (decryptFile_proc sample_crypto ''alice'' other_salt [1, 2, 3]
        stored_vault))
       = [Decrypted [1, 2, 3], GcmDecrypted [1, 2, 3] [], CryptoJSDecrypted [1, 2, 3]]"
    using n
    by (simp add: decryptFile_proc_crypto_log legacy_signature_def stored_vault_def
        initial_dashboard_def)
  from legacy_path_iff [of sample_crypto "''alice''" other_salt "[1, 2, 3]" stored_vault] n c l
  show ?thesis
    by simp
qed

lemma sample_salt_from_header: "salt_from_header sample_crypto"
  by (simp add: salt_from_header_def sample_crypto_def)

text \<open>
  C4, as stated: on every blob whose first ten bytes are the legacy signature, the
  current \<open>decryptFile\<close> returns what the earlier one returns. It fails for a blob
  without the complete header, where the legacy library draws a random salt in each
  call: on the sample primitives, for the signature followed by \<open>AA\<close>, the current
  function with one draw and the earlier function with another return different
  files.
\<close>

theorem legacy_random_salt_counterexample:
  "take 10 (legacy_signature @ [0x41, 0x41]) = legacy_signature
   \<and> decryptFile sample_crypto ''alice'' sample_salt (legacy_signature @ [0x41, 0x41]) = Inr []
   \<and> decryptFile_old sample_crypto ''alice'' other_salt (legacy_signature @ [0x41, 0x41])
       = Inr [0, 0]
   \<and> decryptFile sample_crypto ''alice'' sample_salt (legacy_signature @ [0x41, 0x41])
       \<noteq> decryptFile_old sample_crypto ''alice'' other_salt (legacy_signature @ [0x41, 0x41])"
proof -
  have h: "take 10 (legacy_signature @ [0x41, 0x41]) = legacy_signature"
    by (simp add: legacy_signature_def)
  have new: "decryptFile sample_crypto ''alice'' sample_salt (legacy_signature @ [0x41, 0x41])
      = Inr []"
    unfolding decryptFile_signature [OF h]
    by (simp add: decryptFile_catch_def sample_crypto_def sample_salt_def full_header_def
        legacy_signature_def convertWordArrayToUint8Array_def)
  have old: "decryptFile_old sample_crypto ''alice'' other_salt (legacy_signature @ [0x41, 0x41])
      = Inr [0, 0]"
    by (simp add: decryptFile_old_def sample_crypto_def other_salt_def full_header_def
        legacy_signature_def convertWordArrayToUint8Array_def replicate_two)
  from h new old show ?thesis
    by simp
qed

text \<open>
  C4, amended. On a blob whose first ten bytes are the legacy signature, the current
  \<open>decryptFile\<close> returns what the earlier, legacy-only \<open>decryptFile\<close> returns, for
  every key, when the legacy library draws the same salt in both; and on a blob with
  the complete header, where the library reads the salt from the text, the two return
  the same whatever the draws are.
\<close>

theorem legacy_compatible:
  assumes "take 10 blob = legacy_signature"
  shows "decryptFile C secret salt blob = decryptFile_old C secret salt blob
     \<and> (salt_from_header C \<and> full_header blob \<longrightarrow>
          decryptFile C secret salt blob = decryptFile_old C secret salt' blob)"
proof -
  have same: "decryptFile C secret salt blob = decryptFile_old C secret salt blob"
    using assms
    by (simp add: decryptFile_def decryptFile_try_def decryptFile_catch_def decryptFile_old_def
        Let_def slice_take header_iff split: option.splits sum.splits)
  have "decryptFile_old C secret salt blob = decryptFile_old C secret salt' blob"
    if "salt_from_header C" "full_header blob"
  proof -
    from that have "cryptojs_decrypt C blob secret salt = cryptojs_decrypt C blob secret salt'"
      unfolding salt_from_header_def by blast
    then show ?thesis
      by (simp add: decryptFile_old_def)
  qed
  with same show ?thesis
    by simp
qed

theorem legacy_compatible_witness:
  "take 10 (legacy_signature @ [0x38, 0x41]) = legacy_signature
   \<and> salt_from_header sample_crypto
   \<and> full_header (legacy_signature @ [0x38, 0x41])
   \<and> decryptFile sample_crypto ''alice'' sample_salt (legacy_signature @ [0x38, 0x41])
       = decryptFile_old sample_crypto ''alice'' sample_salt (legacy_signature @ [0x38, 0x41])
   \<and> decryptFile sample_crypto ''alice'' sample_salt (legacy_signature @ [0x38, 0x41])
       = decryptFile_old sample_crypto ''alice'' other_salt (legacy_signature @ [0x38, 0x41])"
proof -
  have h: "take 10 (legacy_signature @ [0x38, 0x41]) = legacy_signature"
    by (simp add: legacy_signature_def)
  have f: "full_header (legacy_signature @ [0x38, 0x41])"
    by (simp add: full_header_def legacy_signature_def)
  from legacy_compatible [OF h, of sample_crypto "''alice''" sample_salt other_salt]
    h f sample_salt_from_header
  show ?thesis
    by blast
qed

section \<open>Procedures, by components\<close>

text \<open>A toast is transient: the callback of its timer clears it.\<close>

lemma toast_cleared: "toast (toast_timeout (snd (showToast type msg w))) = None"
  by (simp add: toast_timeout_def showToast_def update_def)

lemmas all_splits = prod.split sum.split result.split option.split

lemma seq_proj:
  "seq m f w = (case fst (m w) of Inl e \<Rightarrow> (Inl e, snd (m w)) | Inr x \<Rightarrow> f x (snd (m w)))"
  by (simp add: seq_def split: all_splits)

lemma try_catch_proj:
  "try_catch m h w =
     (case fst (m w) of Inl e \<Rightarrow> h e (snd (m w)) | Inr x \<Rightarrow> (Inr x, snd (m w)))"
  by (simp add: try_catch_def split: all_splits)

lemma finally_do_proj: "finally_do m f w = (fst (m w), f (snd (m w)))"
  by (simp add: finally_do_def split: all_splits)

lemma call_proj:
  "call rq f w =
     (fst (f (backend w)), w\<lparr>backend := snd (f (backend w)), sent := sent w @ [rq]\<rparr>)"
  by (simp add: call_def split: all_splits)

lemmas proj_defs = ret_def throw_def lift_def update_def seq_proj try_catch_proj finally_do_proj
  spawn_def call_proj console_log_def alert_def

lemmas sample_defs = memory_backend_def refusing_backend_def sample_crypto_def failing_crypto_def
  alice_def notes_file_def sample_iv_def initial_dashboard_def initial_admin_def stored_vault_def
  sample_panel_def bob_def carol_def approve_bob_def bucketName_def sample_tag_def
  waiting_dashboard_def approved_dashboard_def suspended_dashboard_def sample_salt_def


section \<open>Every handler returns\<close>



lemma logAction_returns: "fst (logAction S usr action fileName details w) = Inr ()"
  by (simp add: logAction_def proj_defs split: all_splits)









section \<open>What a failing call leaves behind\<close>

lemma decryptFile_proc_state:
  "toast (snd (decryptFile_proc C secret salt blob w)) = toast w
   \<and> saved (snd (decryptFile_proc C secret salt blob w)) = saved w
   \<and> sent (snd (decryptFile_proc C secret salt blob w)) = sent w
   \<and> backend (snd (decryptFile_proc C secret salt blob w)) = backend w"
  by (simp add: decryptFile_proc_def seq_def try_catch_def update_def lift_def throw_def
      console_log_def Let_def split: option.split)

lemma logAction_state:
  "toast (snd (logAction S usr action fileName details w)) = toast w
   \<and> saved (snd (logAction S usr action fileName details w)) = saved w
   \<and> crypto_log (snd (logAction S usr action fileName details w)) = crypto_log w"
  by (simp add: logAction_def proj_defs split: all_splits)

lemma fetchFiles_state:
  "toast (snd (fetchFiles S usr w)) = toast w
   \<and> saved (snd (fetchFiles S usr w)) = saved w
   \<and> crypto_log (snd (fetchFiles S usr w)) = crypto_log w"
  by (simp add: fetchFiles_def proj_defs split: all_splits)












section \<open>Error handling\<close>




section \<open>Account status in the admin panel\<close>






section \<open>Storage paths of the dashboard\<close>

lemma sends_scopedI:
  "sent (snd (h w)) = sent w @ new \<Longrightarrow> list_all (scoped u fileName) new
     \<Longrightarrow> sends_scoped u fileName h w"
  by (simp add: sends_scoped_def)

lemma fetchFiles_sent:
  "sent (snd (fetchFiles S usr w)) = sent w @ [StorageList bucketName (optional_id usr @ ''/'')]"
  by (simp add: fetchFiles_def proj_defs split: all_splits)

lemma logAction_sent:
  "sent (snd (logAction S (Some u) action fileName details w))
     = sent w @ [AccessLogsInsert (user_id u) action fileName details]"
  by (simp add: logAction_def proj_defs split: all_splits)

lemma decryptFile_proc_sent: "sent (snd (decryptFile_proc C secret salt blob w)) = sent w"
  by (simp add: decryptFile_proc_state)

lemmas sent_simps = fetchFiles_sent logAction_sent logAction_returns decryptFile_proc_sent

lemma handleDelete_sent:
  "\<exists>new. sent (snd (handleDelete S (Some u) confirmed fileName w)) = sent w @ new
         \<and> list_all (scoped u fileName) new"
  by (simp add: handleDelete_def showToast_def proj_defs sent_simps optional_id_def
      user_folder_def user_file_def split: all_splits)

lemma handleDownload_sent:
  "\<exists>new. sent (snd (handleDownload S C salt (Some u) fileName t w)) = sent w @ new
         \<and> list_all (scoped u fileName) new"
  by (simp add: handleDownload_def showToast_def proj_defs sent_simps Let_def optional_id_def
      user_folder_def user_file_def split: all_splits)

lemma handlePreview_sent:
  "\<exists>new. sent (snd (handlePreview S C salt (Some u) fileName t w)) = sent w @ new
         \<and> list_all (scoped u fileName) new"
  by (simp add: handlePreview_def showToast_def proj_defs sent_simps Let_def optional_id_def
      user_folder_def user_file_def split: all_splits)

lemma handleFileUpload_sent:
  "\<exists>new. sent (snd (handleFileUpload S C fmt (Some u) iv file w)) = sent w @ new
         \<and> list_all (scoped u (file_name file)) new"
  by (simp add: handleFileUpload_def encryptFile_proc_def showToast_def proj_defs sent_simps
      Let_def optional_id_def user_folder_def user_file_def split: all_splits)

lemma handleDownload_first:
  "\<exists>rest. sent (snd (handleDownload S C salt (Some u) fileName t w))
            = sent w @ StorageDownload bucketName (user_file u fileName) # rest"
  by (simp add: handleDownload_def showToast_def proj_defs sent_simps Let_def optional_id_def
      user_file_def split: all_splits)

lemma handlePreview_first:
  "\<exists>rest. sent (snd (handlePreview S C salt (Some u) fileName t w))
            = sent w @ StorageDownload bucketName (user_file u fileName) # rest"
  by (simp add: handlePreview_def showToast_def proj_defs sent_simps Let_def optional_id_def
      user_file_def split: all_splits)

lemma handleDelete_first:
  "\<exists>rest. sent (snd (handleDelete S (Some u) True fileName w))
            = sent w @ StorageRemove bucketName [user_file u fileName] # rest"
  by (simp add: handleDelete_def showToast_def proj_defs sent_simps optional_id_def
      user_file_def split: all_splits)

lemma handleFileUpload_first:
  assumes "file_size file \<le> MAX_FILE_SIZE"
    and "encryptFile C (ENCRYPTION_KEY (Some u)) iv (file_content file) = Inr blob"
  shows "\<exists>rest. sent (snd (handleFileUpload S C fmt (Some u) iv file w))
            = sent w @ StorageUpload bucketName (user_file u (file_name file)) blob
                         ''application/encrypted'' (file_type file) # rest"
  using assms
  by (simp add: handleFileUpload_def encryptFile_proc_def showToast_def proj_defs sent_simps
      Let_def user_file_def split: all_splits)

text \<open>
  With a signed-in user, every storage path that the listing, the upload, the
  download, the preview and the deletion send is scoped under the id of the user: the
  listing names the folder, the id followed by \<open>/\<close>, and the other calls name the id
  followed by \<open>/\<close> and the file name. The listing, the download, the preview, a
  confirmed deletion and an upload that reaches the storage do send such a call.
\<close>

lemma paths_scoped:
  "sends_scoped u fileName (fetchFiles S (Some u)) w
   \<and> sends_scoped u (file_name file) (handleFileUpload S C fmt (Some u) iv file) w
   \<and> sends_scoped u fileName (handleDownload S C salt (Some u) fileName t) w
   \<and> sends_scoped u fileName (handlePreview S C salt (Some u) fileName t) w
   \<and> sends_scoped u fileName (handleDelete S (Some u) confirmed fileName) w
   \<and> sent (snd (fetchFiles S (Some u) w)) = sent w @ [StorageList bucketName (user_folder u)]
   \<and> (\<exists>rest. sent (snd (handleDownload S C salt (Some u) fileName t w))
                = sent w @ StorageDownload bucketName (user_file u fileName) # rest)
   \<and> (\<exists>rest. sent (snd (handlePreview S C salt (Some u) fileName t w))
                = sent w @ StorageDownload bucketName (user_file u fileName) # rest)
   \<and> (\<exists>rest. sent (snd (handleDelete S (Some u) True fileName w))
                = sent w @ StorageRemove bucketName [user_file u fileName] # rest)
   \<and> (file_size file \<le> MAX_FILE_SIZE
        \<and> encryptFile C (ENCRYPTION_KEY (Some u)) iv (file_content file) = Inr blob \<longrightarrow>
        (\<exists>rest. sent (snd (handleFileUpload S C fmt (Some u) iv file w))
                = sent w @ StorageUpload bucketName (user_file u (file_name file)) blob
                             ''application/encrypted'' (file_type file) # rest))"
proof (intro conjI impI)
  have list: "sent (snd (fetchFiles S (Some u) w)) = sent w @ [StorageList bucketName (user_folder u)]"
    by (simp add: fetchFiles_sent optional_id_def user_folder_def)
  then show "sends_scoped u fileName (fetchFiles S (Some u)) w"
    by (rule sends_scopedI) simp
  show "sent (snd (fetchFiles S (Some u) w)) = sent w @ [StorageList bucketName (user_folder u)]"
    by (rule list)
  show "sends_scoped u (file_name file) (handleFileUpload S C fmt (Some u) iv file) w"
    using handleFileUpload_sent [of S C fmt u iv "file" w] by (auto intro: sends_scopedI)
  show "sends_scoped u fileName (handleDownload S C salt (Some u) fileName t) w"
    using handleDownload_sent [of S C salt u fileName t w] by (auto intro: sends_scopedI)
  show "sends_scoped u fileName (handlePreview S C salt (Some u) fileName t) w"
    using handlePreview_sent [of S C salt u fileName t w] by (auto intro: sends_scopedI)
  show "sends_scoped u fileName (handleDelete S (Some u) confirmed fileName) w"
    using handleDelete_sent [of S u confirmed fileName w] by (auto intro: sends_scopedI)
  show "\<exists>rest. sent (snd (handleDownload S C salt (Some u) fileName t w))
                = sent w @ StorageDownload bucketName (user_file u fileName) # rest"
    by (rule handleDownload_first)
  show "\<exists>rest. sent (snd (handlePreview S C salt (Some u) fileName t w))
                = sent w @ StorageDownload bucketName (user_file u fileName) # rest"
    by (rule handlePreview_first)
  show "\<exists>rest. sent (snd (handleDelete S (Some u) True fileName w))
                = sent w @ StorageRemove bucketName [user_file u fileName] # rest"
    by (rule handleDelete_first)
next
  assume "file_size file \<le> MAX_FILE_SIZE
        \<and> encryptFile C (ENCRYPTION_KEY (Some u)) iv (file_content file) = Inr blob"
  then show "\<exists>rest. sent (snd (handleFileUpload S C fmt (Some u) iv file w))
                = sent w @ StorageUpload bucketName (user_file u (file_name file)) blob
                             ''application/encrypted'' (file_type file) # rest"
    by (intro handleFileUpload_first) simp_all
qed

lemma paths_scoped_example:
  "sends_scoped alice ''notes.txt'' (fetchFiles memory_backend (Some alice)) stored_vault
   \<and> sends_scoped alice ''notes.txt''
        (handleFileUpload memory_backend sample_crypto sample_formatSize (Some alice) sample_iv
           notes_file) stored_vault
   \<and> sends_scoped alice ''notes.txt''
        (handleDownload memory_backend sample_crypto sample_salt (Some alice) ''notes.txt'' None) stored_vault
   \<and> sends_scoped alice ''notes.txt''
        (handlePreview memory_backend sample_crypto sample_salt (Some alice) ''notes.txt'' None) stored_vault
   \<and> sends_scoped alice ''notes.txt''
        (handleDelete memory_backend (Some alice) True ''notes.txt'') stored_vault
   \<and> file_size notes_file \<le> MAX_FILE_SIZE
   \<and> encryptFile sample_crypto (ENCRYPTION_KEY (Some alice)) sample_iv (file_content notes_file)
       = Inr (sample_iv @ [NOT 104, NOT 105] @ sample_tag)
   \<and> sent (snd (handleFileUpload memory_backend sample_crypto sample_formatSize (Some alice)
                  sample_iv notes_file stored_vault))
       = [StorageUpload ''emergency-tools'' ''alice/notes.txt''
            (sample_iv @ [NOT 104, NOT 105] @ sample_tag) ''application/encrypted'' ''text/plain'',
          AccessLogsInsert ''alice'' ''UPLOAD'' ''notes.txt'' ''Size: 2 bytes'',
          StorageList ''emergency-tools'' ''alice/'']
   \<and> sent (snd (handleDownload memory_backend sample_crypto sample_salt (Some alice) ''notes.txt'' None
                  stored_vault))
       = [StorageDownload ''emergency-tools'' ''alice/notes.txt'',
          AccessLogsInsert ''alice'' ''DOWNLOAD'' ''notes.txt'' []]
   \<and> sent (snd (handleDelete memory_backend (Some alice) True ''notes.txt'' stored_vault))
       = [StorageRemove ''emergency-tools'' [''alice/notes.txt''],
          AccessLogsInsert ''alice'' ''DELETE'' ''notes.txt'' [],
          StorageList ''emergency-tools'' ''alice/'']"
proof -
  have size: "file_size notes_file \<le> MAX_FILE_SIZE"
    by (simp add: file_size_def notes_file_def MAX_FILE_SIZE_def)
  have enc: "encryptFile sample_crypto (ENCRYPTION_KEY (Some alice)) sample_iv
      (file_content notes_file) = Inr (sample_iv @ [NOT 104, NOT 105] @ sample_tag)"
    by (simp add: encryptFile_def sample_crypto_def notes_file_def)
  have "number_to_string 2 = ''2''"
    by code_simp
  then have two: "number_to_string (Suc (Suc 0)) = ''2''"
    by (simp add: numeral_2_eq_2)
  have up: "sent (snd (handleFileUpload memory_backend sample_crypto sample_formatSize (Some alice)
                  sample_iv notes_file stored_vault))
       = [StorageUpload ''emergency-tools'' ''alice/notes.txt''
            (sample_iv @ [NOT 104, NOT 105] @ sample_tag) ''application/encrypted'' ''text/plain'',
          AccessLogsInsert ''alice'' ''UPLOAD'' ''notes.txt'' ''Size: 2 bytes'',
          StorageList ''emergency-tools'' ''alice/'']"
    by (simp add: handleFileUpload_def encryptFile_proc_def encryptFile_def fetchFiles_def
        logAction_def showToast_def proj_defs sample_defs Let_def optional_id_def
        ENCRYPTION_KEY_def getCryptoKey_def file_size_def MAX_FILE_SIZE_def two)
  have down: "sent (snd (handleDownload memory_backend sample_crypto sample_salt (Some alice) ''notes.txt'' None
                  stored_vault))
       = [StorageDownload ''emergency-tools'' ''alice/notes.txt'',
          AccessLogsInsert ''alice'' ''DOWNLOAD'' ''notes.txt'' []]"
    by (simp add: handleDownload_def decryptFile_proc_def decryptFile_try_def
        decryptFile_catch_def logAction_def showToast_def proj_defs sample_defs Let_def
        optional_id_def ENCRYPTION_KEY_def getCryptoKey_def convertWordArrayToUint8Array_def
        slice_def fromCharCode_def)
  have del: "sent (snd (handleDelete memory_backend (Some alice) True ''notes.txt'' stored_vault))
       = [StorageRemove ''emergency-tools'' [''alice/notes.txt''],
          AccessLogsInsert ''alice'' ''DELETE'' ''notes.txt'' [],
          StorageList ''emergency-tools'' ''alice/'']"
    by (simp add: handleDelete_def sent_simps showToast_def proj_defs sample_defs optional_id_def)
  have name: "file_name notes_file = ''notes.txt''"
    by (simp add: notes_file_def)
  from paths_scoped [of alice "''notes.txt''" memory_backend stored_vault notes_file sample_crypto
      sample_formatSize sample_iv sample_salt None True "sample_iv @ [NOT 104, NOT 105] @ sample_tag"]
    size enc up down del name
  show ?thesis
    by simp
qed

text \<open>
  Without a user the download, the preview, the deletion and the listing still send
  their call, whatever the backend is, and the path starts with the text
  \<open>undefined\<close>, which \<open>user?.id\<close> gives inside the string.
\<close>

lemma download_without_user:
  "\<exists>rest. sent (snd (handleDownload S C salt None fileName t w))
            = sent w @ StorageDownload bucketName (''undefined/'' @ fileName) # rest"
  by (simp add: handleDownload_def showToast_def proj_defs sent_simps Let_def optional_id_def
      logAction_def split: all_splits)

lemma preview_without_user:
  "\<exists>rest. sent (snd (handlePreview S C salt None fileName t w))
            = sent w @ StorageDownload bucketName (''undefined/'' @ fileName) # rest"
  by (simp add: handlePreview_def showToast_def proj_defs sent_simps Let_def optional_id_def
      split: all_splits)

lemma delete_without_user:
  "\<exists>rest. sent (snd (handleDelete S None True fileName w))
            = sent w @ StorageRemove bucketName [''undefined/'' @ fileName] # rest"
  by (simp add: handleDelete_def showToast_def proj_defs sent_simps optional_id_def
      logAction_def split: all_splits)

lemma list_without_user:
  "sent (snd (fetchFiles S None w)) = sent w @ [StorageList bucketName ''undefined/'']"
  by (simp add: fetchFiles_sent optional_id_def)

text \<open>
  C7. Every storage path the client constructs is to be the id of the current user,
  \<open>/\<close> and the file name. The code does so when a user is signed in. With no user
  signed in, \<open>handleFileUpload\<close> returns at its guard and sends nothing, but the
  listing, the download, the preview and the deletion, which have no such guard, send
  the paths \<open>undefined/\<close> and \<open>undefined/notes.txt\<close>.
\<close>

theorem paths_without_user:
  "sent (snd (handleFileUpload memory_backend sample_crypto sample_formatSize None sample_iv
                notes_file stored_vault)) = []
   \<and> sent (snd (fetchFiles memory_backend None stored_vault))
       = [StorageList ''emergency-tools'' ''undefined/'']
   \<and> sent (snd (handleDownload memory_backend sample_crypto sample_salt None ''notes.txt'' None
                  stored_vault))
       = [StorageDownload ''emergency-tools'' ''undefined/notes.txt'']
   \<and> sent (snd (handlePreview memory_backend sample_crypto sample_salt None ''notes.txt'' None
                  stored_vault))
       = [StorageDownload ''emergency-tools'' ''undefined/notes.txt'']
   \<and> sent (snd (handleDelete memory_backend None True ''notes.txt'' stored_vault))
       = [StorageRemove ''emergency-tools'' [''undefined/notes.txt''],
          StorageList ''emergency-tools'' ''undefined/'']"
proof (intro conjI)
  show "sent (snd (handleFileUpload memory_backend sample_crypto sample_formatSize None sample_iv
                notes_file stored_vault)) = []"
    by (simp add: handleFileUpload_def ret_def stored_vault_def initial_dashboard_def)
  show "sent (snd (fetchFiles memory_backend None stored_vault))
       = [StorageList ''emergency-tools'' ''undefined/'']"
    by (simp add: fetchFiles_sent optional_id_def stored_vault_def initial_dashboard_def
        bucketName_def)
  show "sent (snd (handleDownload memory_backend sample_crypto sample_salt None ''notes.txt'' None
                  stored_vault))
       = [StorageDownload ''emergency-tools'' ''undefined/notes.txt'']"
    by (simp add: handleDownload_def showToast_def proj_defs sample_defs Let_def optional_id_def)
  show "sent (snd (handlePreview memory_backend sample_crypto sample_salt None ''notes.txt'' None
                  stored_vault))
       = [StorageDownload ''emergency-tools'' ''undefined/notes.txt'']"
    by (simp add: handlePreview_def showToast_def proj_defs sample_defs Let_def optional_id_def)
  show "sent (snd (handleDelete memory_backend None True ''notes.txt'' stored_vault))
       = [StorageRemove ''emergency-tools'' [''undefined/notes.txt''],
          StorageList ''emergency-tools'' ''undefined/'']"
    by (simp add: handleDelete_def logAction_def fetchFiles_sent showToast_def proj_defs
        sample_defs optional_id_def)
qed

section \<open>The approval gate\<close>

text \<open>
  What the gate does: when the profile is absent, or its status is \<open>pending\<close> or
  \<open>rejected\<close>, the dashboard renders a blocking screen and not the vault, and the vault
  is rendered only once the profile is loaded and its status is neither of the two.
  The effect that loads the files calls \<open>fetchFiles\<close> only when the status of the
  profile is \<open>approved\<close>: otherwise it does nothing, and with a signed-in user and an
  approved profile it is the call of \<open>fetchFiles\<close>.
\<close>

lemma approval_gate:
  "((userProfile w = None
       \<or> (\<exists>p. userProfile w = Some p \<and> (status p = ''pending'' \<or> status p = ''rejected'')))
      \<longrightarrow> render w = VerifyingAccess \<or> render w = AccountPendingApproval
            \<or> render w = AccessDenied)
   \<and> (\<not> (\<exists>p. userProfile w = Some p \<and> status p = ''approved'')
        \<longrightarrow> files_effect S usr w = (Inr (), w))
   \<and> (render w' = Vault
        \<longrightarrow> \<not> loadingProfile w'
            \<and> (\<exists>p. userProfile w' = Some p \<and> status p \<noteq> ''pending''
                   \<and> status p \<noteq> ''rejected''))
   \<and> (sent (snd (files_effect S usr w')) \<noteq> sent w'
        \<longrightarrow> (\<exists>p. userProfile w' = Some p \<and> status p = ''approved''))
   \<and> ((\<exists>p. userProfile w' = Some p \<and> status p = ''approved'')
        \<longrightarrow> files_effect S (Some u) w' = spawn (fetchFiles S (Some u)) w')"
  by (auto simp add: render_def files_effect_def ret_def split: option.splits if_splits)

lemma approval_gate_example:
  "userProfile waiting_dashboard = Some \<lparr>role = ''user'', status = ''pending''\<rparr>
   \<and> status \<lparr>role = ''user'', status = ''pending''\<rparr> = ''pending''
   \<and> render waiting_dashboard = AccountPendingApproval
   \<and> files_effect memory_backend (Some alice) waiting_dashboard = (Inr (), waiting_dashboard)
   \<and> render approved_dashboard = Vault
   \<and> userProfile approved_dashboard = Some \<lparr>role = ''user'', status = ''approved''\<rparr>
   \<and> sent (snd (files_effect memory_backend (Some alice) approved_dashboard))
       = [StorageList ''emergency-tools'' ''alice/'']
   \<and> sent (snd (files_effect memory_backend (Some alice) approved_dashboard))
       \<noteq> sent approved_dashboard
   \<and> files_effect memory_backend (Some alice) approved_dashboard
       = spawn (fetchFiles memory_backend (Some alice)) approved_dashboard"
proof -
  have p: "userProfile waiting_dashboard = Some \<lparr>role = ''user'', status = ''pending''\<rparr>"
    by (simp add: waiting_dashboard_def)
  have a: "userProfile approved_dashboard = Some \<lparr>role = ''user'', status = ''approved''\<rparr>"
    by (simp add: approved_dashboard_def)
  have r: "render waiting_dashboard = AccountPendingApproval"
    by (simp add: render_def waiting_dashboard_def)
  have v: "render approved_dashboard = Vault"
    by (simp add: render_def approved_dashboard_def)
  have s: "sent (snd (files_effect memory_backend (Some alice) approved_dashboard))
       = [StorageList ''emergency-tools'' ''alice/'']"
    by (simp add: files_effect_def spawn_def fetchFiles_sent optional_id_def sample_defs)
  have n: "sent approved_dashboard = []"
    by (simp add: sample_defs)
  from approval_gate [of waiting_dashboard memory_backend "Some alice" approved_dashboard alice]
    p a r v s n
  show ?thesis
    by simp
qed

lemma vault_rendered_iff:
  "render w = Vault \<longleftrightarrow>
     \<not> loadingProfile w
     \<and> (\<exists>p. userProfile w = Some p \<and> status p \<noteq> ''pending'' \<and> status p \<noteq> ''rejected'')"
  by (auto simp add: render_def split: option.splits)

lemma blocked_screen_no_event:
  "render w \<noteq> Vault \<Longrightarrow> vault_event_handler S C fmt salt usr ev w = (Inr (), w)"
  by (simp add: vault_event_handler_def ret_def)

text \<open>
  C8. The vault is to be reached only after approval, and \<open>fetchFiles\<close> called only
  when the status of the profile is \<open>approved\<close>. The effect tests for \<open>approved\<close>, but
  the screen only tests for \<open>pending\<close> and \<open>rejected\<close>: with a loaded profile of any
  other status, here \<open>suspended\<close>, the effect does nothing and yet the vault is
  rendered, and a deletion or an upload in it calls \<open>fetchFiles\<close>.
\<close>

theorem vault_without_approval:
  "userProfile suspended_dashboard = Some \<lparr>role = ''user'', status = ''suspended''\<rparr>
   \<and> render suspended_dashboard = Vault
   \<and> files_effect memory_backend (Some alice) suspended_dashboard = (Inr (), suspended_dashboard)
   \<and> sent (snd (vault_event_handler memory_backend sample_crypto sample_formatSize sample_salt
                  (Some alice) (ClickDelete True ''notes.txt'') suspended_dashboard))
       = [StorageRemove ''emergency-tools'' [''alice/notes.txt''],
          AccessLogsInsert ''alice'' ''DELETE'' ''notes.txt'' [],
          StorageList ''emergency-tools'' ''alice/'']
   \<and> sent (snd (vault_event_handler memory_backend sample_crypto sample_formatSize sample_salt
                  (Some alice) (DropFile sample_iv notes_file) suspended_dashboard))
       = [StorageUpload ''emergency-tools'' ''alice/notes.txt''
            (sample_iv @ [NOT 104, NOT 105] @ sample_tag) ''application/encrypted'' ''text/plain'',
          AccessLogsInsert ''alice'' ''UPLOAD'' ''notes.txt'' ''Size: 2 bytes'',
          StorageList ''emergency-tools'' ''alice/'']"
proof (intro conjI)
  show "userProfile suspended_dashboard = Some \<lparr>role = ''user'', status = ''suspended''\<rparr>"
    by (simp add: suspended_dashboard_def)
  show v: "render suspended_dashboard = Vault"
    by (simp add: render_def suspended_dashboard_def)
  show "files_effect memory_backend (Some alice) suspended_dashboard
      = (Inr (), suspended_dashboard)"
    by (simp add: files_effect_def ret_def suspended_dashboard_def)
  show "sent (snd (vault_event_handler memory_backend sample_crypto sample_formatSize sample_salt
                  (Some alice) (ClickDelete True ''notes.txt'') suspended_dashboard))
       = [StorageRemove ''emergency-tools'' [''alice/notes.txt''],
          AccessLogsInsert ''alice'' ''DELETE'' ''notes.txt'' [],
          StorageList ''emergency-tools'' ''alice/'']"
    unfolding vault_event_handler_def v
    by (simp add: handleDelete_def sent_simps showToast_def proj_defs sample_defs optional_id_def)
  have "number_to_string 2 = ''2''"
    by code_simp
  then have two: "number_to_string (Suc (Suc 0)) = ''2''"
    by (simp add: numeral_2_eq_2)
  show "sent (snd (vault_event_handler memory_backend sample_crypto sample_formatSize sample_salt
                  (Some alice) (DropFile sample_iv notes_file) suspended_dashboard))
       = [StorageUpload ''emergency-tools'' ''alice/notes.txt''
            (sample_iv @ [NOT 104, NOT 105] @ sample_tag) ''application/encrypted'' ''text/plain'',
          AccessLogsInsert ''alice'' ''UPLOAD'' ''notes.txt'' ''Size: 2 bytes'',
          StorageList ''emergency-tools'' ''alice/'']"
    unfolding vault_event_handler_def v
    by (simp add: handleFileUpload_def encryptFile_proc_def encryptFile_def fetchFiles_def
        logAction_def showToast_def proj_defs sample_defs Let_def optional_id_def
        ENCRYPTION_KEY_def getCryptoKey_def file_size_def MAX_FILE_SIZE_def two)
qed

section \<open>The size limit of uploads\<close>

lemma upload_too_large:
  assumes "file_size file > MAX_FILE_SIZE"
  shows "handleFileUpload S C fmt usr iv file w =
     (case usr of
        None \<Rightarrow> (Inr (), w)
      | Some u \<Rightarrow>
          (Inr (), w\<lparr>toast := Some (ToastError, ''File too large ('' @ fmt (file_size file)
                         @ ''). Limit is 50MB for browser encryption.''),
                     pending_timeouts := pending_timeouts w + 1\<rparr>))"
  using assms
  by (simp add: handleFileUpload_def showToast_def update_def ret_def split: option.split)

lemma upload_encrypts:
  assumes "file_size file \<le> MAX_FILE_SIZE"
  shows "crypto_log (snd (handleFileUpload S C fmt (Some u) iv file w))
           = crypto_log w @ [Encrypted (file_content file)]"
  using assms
  by (simp add: handleFileUpload_def encryptFile_proc_def showToast_def proj_defs Let_def
      logAction_state logAction_returns fetchFiles_state split: all_splits)

text \<open>
  C9, as stated: for every file above the limit \<open>handleFileUpload\<close> shows an error
  toast. It fails when no user is signed in: the handler returns at its first line,
  before the size check, and the state is what it was, with no toast.
\<close>

theorem upload_without_user_counterexample:
  "file_size large_file > MAX_FILE_SIZE
   \<and> handleFileUpload memory_backend sample_crypto sample_formatSize None sample_iv large_file
        stored_vault = (Inr (), stored_vault)
   \<and> toast stored_vault = None"
  by (simp add: handleFileUpload_def ret_def file_size_def large_file_def MAX_FILE_SIZE_def
      stored_vault_def initial_dashboard_def)

text \<open>
  C9, amended. For a file of more than \<open>50 * 1024 * 1024\<close> bytes \<open>handleFileUpload\<close>
  returns without encrypting and without sending anything: the backend, the calls
  sent, the inputs of the encryption, the file list and the uploading flag are what
  they were; for a signed-in user an error toast is set, and without a user the state
  is unchanged. A file at or below the limit is not rejected: for a signed-in user it
  is handed to the encryption.
\<close>

theorem upload_size_limit:
  "(file_size file > MAX_FILE_SIZE \<longrightarrow>
      fst (handleFileUpload S C fmt usr iv file w) = Inr ()
      \<and> backend (snd (handleFileUpload S C fmt usr iv file w)) = backend w
      \<and> sent (snd (handleFileUpload S C fmt usr iv file w)) = sent w
      \<and> crypto_log (snd (handleFileUpload S C fmt usr iv file w)) = crypto_log w
      \<and> files (snd (handleFileUpload S C fmt usr iv file w)) = files w
      \<and> uploading (snd (handleFileUpload S C fmt usr iv file w)) = uploading w
      \<and> (usr \<noteq> None \<longrightarrow>
           (\<exists>m. toast (snd (handleFileUpload S C fmt usr iv file w)) = Some (ToastError, m)))
      \<and> (usr = None \<longrightarrow> snd (handleFileUpload S C fmt usr iv file w) = w))
   \<and> (file_size file' \<le> MAX_FILE_SIZE \<and> usr \<noteq> None \<longrightarrow>
        crypto_log (snd (handleFileUpload S C fmt usr iv file' w))
          = crypto_log w @ [Encrypted (file_content file')])"
proof (intro conjI impI)
  assume big: "file_size file > MAX_FILE_SIZE"
  note eq = upload_too_large [OF big, of S C fmt usr iv w]
  show "fst (handleFileUpload S C fmt usr iv file w) = Inr ()"
    by (simp add: eq split: option.split)
  show "backend (snd (handleFileUpload S C fmt usr iv file w)) = backend w"
    by (simp add: eq split: option.split)
  show "sent (snd (handleFileUpload S C fmt usr iv file w)) = sent w"
    by (simp add: eq split: option.split)
  show "crypto_log (snd (handleFileUpload S C fmt usr iv file w)) = crypto_log w"
    by (simp add: eq split: option.split)
  show "files (snd (handleFileUpload S C fmt usr iv file w)) = files w"
    by (simp add: eq split: option.split)
  show "uploading (snd (handleFileUpload S C fmt usr iv file w)) = uploading w"
    by (simp add: eq split: option.split)
  show "\<exists>m. toast (snd (handleFileUpload S C fmt usr iv file w)) = Some (ToastError, m)"
    if "usr \<noteq> None"
    using that by (auto simp add: eq)
  show "snd (handleFileUpload S C fmt usr iv file w) = w" if "usr = None"
    unfolding eq using that by simp
next
  assume "file_size file' \<le> MAX_FILE_SIZE \<and> usr \<noteq> None"
  then show "crypto_log (snd (handleFileUpload S C fmt usr iv file' w))
           = crypto_log w @ [Encrypted (file_content file')]"
    by (auto simp add: upload_encrypts)
qed

theorem upload_size_limit_witness:
  "file_size large_file > MAX_FILE_SIZE
   \<and> Some alice \<noteq> None
   \<and> fst (handleFileUpload memory_backend sample_crypto sample_formatSize (Some alice) sample_iv
            large_file stored_vault) = Inr ()
   \<and> backend (snd (handleFileUpload memory_backend sample_crypto sample_formatSize (Some alice)
                     sample_iv large_file stored_vault)) = backend stored_vault
   \<and> sent (snd (handleFileUpload memory_backend sample_crypto sample_formatSize (Some alice)
                  sample_iv large_file stored_vault)) = sent stored_vault
   \<and> crypto_log (snd (handleFileUpload memory_backend sample_crypto sample_formatSize (Some alice)
                        sample_iv large_file stored_vault)) = crypto_log stored_vault
   \<and> (\<exists>m. toast (snd (handleFileUpload memory_backend sample_crypto sample_formatSize (Some alice)
                        sample_iv large_file stored_vault)) = Some (ToastError, m))
   \<and> file_size notes_file \<le> MAX_FILE_SIZE
   \<and> crypto_log (snd (handleFileUpload memory_backend sample_crypto sample_formatSize (Some alice)
                        sample_iv notes_file stored_vault))
       = crypto_log stored_vault @ [Encrypted (file_content notes_file)]"
proof -
  have big: "file_size large_file > MAX_FILE_SIZE"
    by (simp add: file_size_def large_file_def MAX_FILE_SIZE_def)
  have small: "file_size notes_file \<le> MAX_FILE_SIZE"
    by (simp add: file_size_def notes_file_def MAX_FILE_SIZE_def)
  from upload_size_limit [of large_file memory_backend sample_crypto sample_formatSize
      "Some alice" sample_iv stored_vault notes_file] big small
  show ?thesis
    by simp
qed

end
